theory Spec2Isabelle
  imports Complex_Main
begin


section \<open>Python values used by the chart graphics\<close>

text \<open>
  The graphics code of \<^verbatim>\<open>piker/ui/_graphics.py\<close> and
  \<^verbatim>\<open>piker/ui/_graphics/__init__.py\<close> is embedded as pure functions over explicit
  state. Prices and coordinates are Python floats; they are modelled as \<open>real\<close>, so the
  non-finite values of a float (nan, inf) and its rounding are outside the model. Bar
  indices and the write cursor are Python integers and are modelled as \<open>int\<close>.
  An exception is a value of \<open>error\<close>; a method that mutates its object returns the
  object as the exception leaves it, paired with the exception raised, if any.
\<close>

datatype error = IndexError | AssertionError | AttributeError | ValueError | KeyError | TypeError

text \<open>Python indexing \<^verbatim>\<open>xs[i]\<close>: a negative index counts from the end.\<close>

definition py_norm :: "nat \<Rightarrow> int \<Rightarrow> nat option" where
  "py_norm n i =
     (if 0 \<le> i \<and> i < int n then Some (nat i)
      else if i < 0 \<and> - int n \<le> i then Some (nat (int n + i))
      else None)"

definition py_get :: "'a list \<Rightarrow> int \<Rightarrow> error + 'a" where
  "py_get xs i = (case py_norm (length xs) i of None \<Rightarrow> Inl IndexError | Some k \<Rightarrow> Inr (xs ! k))"

text \<open>Python slicing \<^verbatim>\<open>xs[a:b]\<close>: bounds are clipped, negative bounds count from the end.\<close>

definition py_clip :: "nat \<Rightarrow> int \<Rightarrow> nat" where
  "py_clip n i = (if i < 0 then nat (max 0 (int n + i)) else min n (nat i))"

definition py_slice :: "'a list \<Rightarrow> int \<Rightarrow> int \<Rightarrow> 'a list" where
  "py_slice xs a b = (let s = py_clip (length xs) a; e = py_clip (length xs) b in take (e - s) (drop s xs))"

text \<open>
  numpy's \<^verbatim>\<open>xs[a:b] = vs\<close> on the first axis: the rows \<open>vs\<close> are written when there are
  as many of them as the slice has places, a single row is broadcast to every place of
  the slice (to none when the slice is empty), and any other shape raises ValueError
  before anything is written.
\<close>

definition py_slice_assign :: "'a list \<Rightarrow> int \<Rightarrow> int \<Rightarrow> 'a list \<Rightarrow> error + 'a list" where
  "py_slice_assign xs a b vs =
     (let s = py_clip (length xs) a; e = py_clip (length xs) b; m = e - s in
      if length vs = m then Inr (take s xs @ vs @ drop (s + m) xs)
      else if length vs = 1 then Inr (take s xs @ replicate m (hd vs) @ drop (s + m) xs)
      else Inl ValueError)"

text \<open>Python's \<^verbatim>\<open>a or b\<close> on an optional integer: \<^verbatim>\<open>None\<close> and \<open>0\<close> are falsy.\<close>

definition py_or :: "int option \<Rightarrow> int \<Rightarrow> int" where
  "py_or a b = (case a of None \<Rightarrow> b | Some v \<Rightarrow> if v = 0 then b else v)"

section \<open>Bar geometry: \<^verbatim>\<open>bars_from_ohlc\<close>\<close>

text \<open>
  A \<^verbatim>\<open>QLineF(x1, y1, x2, y2)\<close>. A cell of the lines array (dtype object) holds the
  integer \<open>0\<close> that \<^verbatim>\<open>np.zeros_like\<close> leaves there, \<^verbatim>\<open>None\<close>, or a line.
\<close>

record QLineF =
  x1 :: real
  y1 :: real
  x2 :: real
  y2 :: real

datatype cell = Zero | PyNone | Line QLineF

type_synonym row = "cell \<times> cell \<times> cell"

text \<open>One row of the OHLC structured array: the fields the graphics read.\<close>

record ohlc =
  index_f :: int
  open_f :: real
  high_f :: real
  low_f :: real
  close_f :: real
  volume_f :: real

definition mk_lines_array :: "nat \<Rightarrow> row list" where
  "mk_lines_array sz = replicate sz (Zero, Zero, Zero)"

text \<open>The body of the loop of \<^verbatim>\<open>bars_from_ohlc\<close>: the triple \<^verbatim>\<open>(hl, o, c)\<close> of one row (\<open>ol\<close>, \<open>cl\<close> for the open and close lines).\<close>

definition bar_lines :: "real \<Rightarrow> ohlc \<Rightarrow> row" where
  "bar_lines w q =
     (let hl = (if low_f q \<noteq> high_f q
                then Line \<lparr>x1 = of_int (index_f q), y1 = low_f q, x2 = of_int (index_f q), y2 = high_f q\<rparr>
                else PyNone);
          ol = Line \<lparr>x1 = of_int (index_f q) - w, y1 = open_f q, x2 = of_int (index_f q), y2 = open_f q\<rparr>;
          cl = Line \<lparr>x1 = of_int (index_f q), y1 = close_f q, x2 = of_int (index_f q) + w, y2 = close_f q\<rparr>
      in (hl, ol, cl))"

text \<open>
  \<^verbatim>\<open>for i, q in enumerate(data[start:], start=start): lines[i] = (hl, o, c)\<close>,
  with \<open>start\<close> a non-negative offset.
\<close>

fun fill_lines :: "real \<Rightarrow> row list \<Rightarrow> nat \<Rightarrow> ohlc list \<Rightarrow> row list" where
  "fill_lines w lines i [] = lines"
| "fill_lines w lines i (q # qs) = fill_lines w (lines[i := bar_lines w q]) (Suc i) qs"

definition bars_from_ohlc :: "ohlc list \<Rightarrow> real \<Rightarrow> nat \<Rightarrow> row list" where
  "bars_from_ohlc data w start = fill_lines w (mk_lines_array (length data)) start (drop start data)"

section \<open>\<^verbatim>\<open>BarItems\<close>: the lines table and its two pictures\<close>

text \<open>
  \<open>lines\<close> is the pre-allocated table, \<open>index\<close> the write cursor. A \<^verbatim>\<open>QPicture\<close> is
  modelled by the lines that the painter session on it recorded; \<open>history_paints\<close> and
  \<open>last_paints\<close> count the painter sessions opened on each picture (they are not fields
  of the source, they record the calls).
\<close>

record BarItems =
  w :: real
  lines :: "row list"
  index :: int
  history :: "cell list"
  last_pic :: "cell list"
  history_paints :: nat
  last_paints :: nat

definition BarItems_init :: BarItems where
  "BarItems_init =
     \<lparr>w = 43 / 100, lines = mk_lines_array 50000, index = 0,
      history = [], last_pic = [], history_paints = 0, last_paints = 0\<rparr>"

definition ravel :: "row list \<Rightarrow> cell list" where
  "ravel rows = concat (map (\<lambda>(a, b, c). [a, b, c]) rows)"

definition is_line :: "cell \<Rightarrow> bool" where
  "is_line c = (case c of Line l \<Rightarrow> True | _ \<Rightarrow> False)"

text \<open>
  PyQt5's \<^verbatim>\<open>p.drawLines(*to_draw)\<close>: no overload takes no argument, and every argument
  has to be a line, so the call raises TypeError on an empty list and on the \<open>0\<close> of an
  unwritten row; otherwise the lines are recorded.
\<close>

definition drawLines :: "cell list \<Rightarrow> error + cell list" where
  "drawLines to_draw =
     (if to_draw = [] \<or> \<not> list_all is_line to_draw then Inl TypeError else Inr to_draw)"

text \<open>
  \<^verbatim>\<open>draw_lines\<close>. \<^verbatim>\<open>QtGui.QPainter(pic)\<close> begins a session on the picture, which
  resets it; when \<^verbatim>\<open>drawLines\<close> raises, the exception leaves the method with the picture
  empty.
\<close>

definition draw_lines :: "BarItems \<Rightarrow> int \<Rightarrow> int option \<Rightarrow> bool \<Rightarrow> error option \<times> BarItems" where
  "draw_lines self istart iend just_history =
     (if just_history then
        (let iend' = py_or iend (index self - 1);
             to_draw = filter (\<lambda>c. c \<noteq> PyNone) (ravel (py_slice (lines self) istart iend'))
         in case drawLines to_draw of
              Inl e \<Rightarrow> (Some e, self\<lparr>history := [], history_paints := Suc (history_paints self)\<rparr>)
            | Inr pic \<Rightarrow> (None, self\<lparr>history := pic, history_paints := Suc (history_paints self)\<rparr>))
      else
        (let istart' = index self - 1;
             iend' = py_or iend (index self);
             to_draw = filter (\<lambda>c. c \<noteq> PyNone) (ravel (py_slice (lines self) istart' iend'))
         in case drawLines to_draw of
              Inl e \<Rightarrow> (Some e, self\<lparr>last_pic := [], last_paints := Suc (last_paints self)\<rparr>)
            | Inr pic \<Rightarrow> (None, self\<lparr>last_pic := pic, last_paints := Suc (last_paints self)\<rparr>)))"

text \<open>\<^verbatim>\<open>arm.setLine(arm.x1(), y, arm.x2(), y)\<close> on a cell: only a line has the method.\<close>

definition set_arm :: "cell \<Rightarrow> real \<Rightarrow> error + cell" where
  "set_arm arm y =
     (case arm of Line l \<Rightarrow> Inr (Line \<lparr>x1 = x1 l, y1 = y, x2 = x2 l, y2 = y\<rparr>)
      | _ \<Rightarrow> Inl AttributeError)"

text \<open>\<^verbatim>\<open>self.lines[k][0] = v\<close>.\<close>

definition set_body :: "row list \<Rightarrow> int \<Rightarrow> cell \<Rightarrow> error + row list" where
  "set_body ls k v =
     (case py_norm (length ls) k of None \<Rightarrow> Inl IndexError
      | Some j \<Rightarrow> Inr (ls[j := (v, snd (ls ! j))]))"

text \<open>
  The first block of \<^verbatim>\<open>update_from_array\<close> (\<^verbatim>\<open>if extra > 0\<close>, up to the history
  draw): geometry for the rows past the cursor.
\<close>

definition append_new :: "BarItems \<Rightarrow> ohlc list \<Rightarrow> int \<Rightarrow> int \<Rightarrow> error option \<times> BarItems" where
  "append_new self array index0 extra =
     (let new = py_slice array index0 (index0 + extra);
          lines' = bars_from_ohlc new (w self) 0;
          bars_added = int (length lines')
      in case py_slice_assign (lines self) index0 (index0 + bars_added) lines' of
           Inl e \<Rightarrow> (Some e, self)
         | Inr ls \<Rightarrow> draw_lines (self\<lparr>lines := ls, index := index self + bars_added\<rparr>) 0 None True)"

text \<open>
  The second block (\<^verbatim>\<open># current bar update\<close>). \<open>index0\<close> is the local \<^verbatim>\<open>index\<close>,
  read from \<^verbatim>\<open>self.index\<close> before the first block ran. \<open>update_body\<close> is its
  \<^verbatim>\<open>if l != h\<close> statement: \<open>k\<close> is the place of row \<^verbatim>\<open>self.lines[i]\<close>, whose cells
  \<open>body\<close>, \<open>larm\<close>, \<open>rarm\<close> were unpacked before.
\<close>

definition update_body ::
  "row list \<Rightarrow> nat \<Rightarrow> int \<Rightarrow> cell \<Rightarrow> int \<Rightarrow> real \<Rightarrow> real \<Rightarrow> error + row list" where
  "update_body ls k index0 body i l h =
     (if l \<noteq> h then
        (if body = PyNone then
           set_body ls (index0 - 1) (Line \<lparr>x1 = of_int i, y1 = l, x2 = of_int i, y2 = h\<rparr>)
         else
           (case body of
              Line b \<Rightarrow>
                Inr (ls[k := (Line \<lparr>x1 = of_int i, y1 = l, x2 = of_int i, y2 = h\<rparr>, snd (ls ! k))])
            | _ \<Rightarrow> Inl AttributeError))
      else
        (if body \<noteq> PyNone then set_body ls (index0 - 1) PyNone else Inr ls))"

definition update_last :: "BarItems \<Rightarrow> ohlc list \<Rightarrow> int \<Rightarrow> error option \<times> BarItems" where
  "update_last self array index0 =
     (case py_get array (- 1) of
        Inl e \<Rightarrow> (Some e, self)
      | Inr q \<Rightarrow>
          (let i = index_f q; opn = open_f q; h = high_f q; l = low_f q; lst = close_f q in
           if i \<noteq> index self - 1 then (Some AssertionError, self)
           else
             (case py_norm (length (lines self)) i of
                None \<Rightarrow> (Some IndexError, self)
              | Some k \<Rightarrow>
                  (case lines self ! k of
                     (body, larm, rarm) \<Rightarrow>
                       (case set_arm rarm lst of
                          Inl e \<Rightarrow> (Some e, self)
                        | Inr rarm' \<Rightarrow>
                            (let s1 = self\<lparr>lines := (lines self)[k := (body, larm, rarm')]\<rparr> in
                             (case set_arm larm opn of
                                Inl e \<Rightarrow> (Some e, s1)
                              | Inr larm' \<Rightarrow>
                                  (let s2 = s1\<lparr>lines := (lines s1)[k := (body, larm', rarm')]\<rparr> in
                                   (case update_body (lines s2) k index0 body i l h of
                                      Inl e \<Rightarrow> (Some e, s2)
                                    | Inr ls \<Rightarrow> draw_lines (s2\<lparr>lines := ls\<rparr>) 0 None False)))))))))"

definition update_from_array :: "BarItems \<Rightarrow> ohlc list \<Rightarrow> bool \<Rightarrow> error option \<times> BarItems" where
  "update_from_array self array just_history =
     (let index0 = index self;
          len = int (length array);
          extra = len - index0
      in if extra > 0 then
           (case append_new self array index0 extra of
              (Some e, s) \<Rightarrow> (Some e, s)
            | (None, s) \<Rightarrow> if just_history then (None, s) else update_last s array index0)
         else update_last self array index0)"

section \<open>\<^verbatim>\<open>CrossHair\<close>: the pointer overlay over the linked plots\<close>

text \<open>
  A plot (a \<^verbatim>\<open>ChartPlotWidget\<close>) is a handle of any type \<open>'p\<close>. pyqtgraph's coordinate
  transforms \<^verbatim>\<open>plot.mapToView\<close> and \<^verbatim>\<open>plot.mapFromView\<close> are parameters of the
  functions that call them. A point is a pair \<open>(x, y)\<close>.
\<close>

type_synonym point = "real \<times> real"

text \<open>
  Python's \<^verbatim>\<open>round(x)\<close> on a float: the nearest integer, a tie going to the even one.
\<close>

definition py_round :: "real \<Rightarrow> int" where
  "py_round x =
     (let f = \<lfloor>x\<rfloor>; d = x - of_int f in
      if d < 1 / 2 then f else if 1 / 2 < d then f + 1 else if even f then f else f + 1)"

text \<open>
  A \<^verbatim>\<open>YAxisLabel\<close>: whether it is shown and the arguments of the last
  \<^verbatim>\<open>update_label(abs_pos, value)\<close>. The \<^verbatim>\<open>XAxisLabel\<close> of the crosshair: the plot whose
  bottom axis is its parent, its position, and the arguments of the last \<^verbatim>\<open>update_label\<close>.
\<close>

record y_label =
  lab_shown :: bool
  lab_args :: "(point \<times> real) option"

record 'p x_label =
  xl_parent :: 'p
  xl_pos :: point
  xl_args :: "(point \<times> real) option"

text \<open>
  The entry \<^verbatim>\<open>self.graphics[plot]\<close> with the state of its items: the vertical line (its
  x), the horizontal line (its y, and whether it is shown), the y-axis label, and the
  \<^verbatim>\<open>'cursors'\<close> list when the key is there (each \<^verbatim>\<open>LineDot\<close> by its index property).
  \<open>contents\<close> records the calls \<^verbatim>\<open>plot.update_contents_labels(ix)\<close> made on the plot, the
  latest first (the method belongs to the chart widget; only the calls are modelled).
\<close>

record plot_graphics =
  vl :: real
  hl :: real
  hl_shown :: bool
  yl :: y_label
  cursors :: "int list option"
  contents :: "int list"

text \<open>
  \<open>graphics\<close> is a dict, kept as an association list in insertion order; \<open>lastx\<close> is
  \<^verbatim>\<open>self._lastx\<close>; \<open>xaxis_label\<close> is set by the first \<^verbatim>\<open>add_plot\<close>.
\<close>

record 'p CrossHair =
  graphics :: "('p \<times> plot_graphics) list"
  plots :: "'p list"
  active_plot :: "'p option"
  digits :: int
  lastx :: "int option"
  xaxis_label :: "'p x_label option"

definition CrossHair_init :: "int \<Rightarrow> 'p CrossHair" where
  "CrossHair_init dg =
     \<lparr>graphics = [], plots = [], active_plot = None, digits = dg, lastx = None,
      xaxis_label = None\<rparr>"

text \<open>\<^verbatim>\<open>d[k] = v\<close> on a dict: an existing key keeps its place, a new key goes last.\<close>

fun dict_set :: "'k \<Rightarrow> 'v \<Rightarrow> ('k \<times> 'v) list \<Rightarrow> ('k \<times> 'v) list" where
  "dict_set k v [] = [(k, v)]"
| "dict_set k v ((k', v') # kvs) = (if k' = k then (k, v) # kvs else (k', v') # dict_set k v kvs)"

text \<open>
  \<^verbatim>\<open>add_plot\<close>: the lines and the y-axis label of the plot (the horizontal line and the
  label hidden), and a new x-axis label below the last plot when the style constant
  \<^verbatim>\<open>_xaxis_at\<close> is \<^verbatim>\<open>'bottom'\<close>, below the first otherwise, placed at
  \<^verbatim>\<open>self.plots[0].mapFromView(QPointF(0, 0))\<close>.
\<close>

definition add_plot ::
  "string \<Rightarrow> ('p \<Rightarrow> point \<Rightarrow> point) \<Rightarrow> 'p CrossHair \<Rightarrow> 'p \<Rightarrow> 'p CrossHair" where
  "add_plot xaxis_at from_view self plot =
     (let g = \<lparr>vl = 0, hl = 0, hl_shown = False,
                yl = \<lparr>lab_shown = False, lab_args = None\<rparr>, cursors = None, contents = []\<rparr>;
          plots' = plots self @ [plot];
          parent = (if xaxis_at = ''bottom'' then last plots' else hd plots')
      in self\<lparr>graphics := dict_set plot g (graphics self),
              plots := plots',
              xaxis_label := Some \<lparr>xl_parent = parent, xl_pos = from_view (hd plots') (0, 0),
                                     xl_args = None\<rparr>\<rparr>)"

text \<open>
  \<^verbatim>\<open>add_curve_cursor\<close>: a \<^verbatim>\<open>LineDot\<close> at index \<open>i\<close> (the last index of the plot's data)
  appended to \<^verbatim>\<open>self.graphics[plot].setdefault('cursors', [])\<close>.
\<close>

definition add_curve_cursor :: "'p CrossHair \<Rightarrow> 'p \<Rightarrow> int \<Rightarrow> error option \<times> 'p CrossHair" where
  "add_curve_cursor self plot i =
     (case map_of (graphics self) plot of
        None \<Rightarrow> (Some KeyError, self)
      | Some g \<Rightarrow>
          (None, self\<lparr>graphics := dict_set plot
                    (g\<lparr>cursors := Some ((case cursors g of None \<Rightarrow> [] | Some cs \<Rightarrow> cs) @ [i])\<rparr>)
                    (graphics self)\<rparr>))"

text \<open>
  \<^verbatim>\<open>mouseAction(action, plot)\<close>. The assignment to \<^verbatim>\<open>self.active_plot\<close> comes first, so
  it stands when \<^verbatim>\<open>self.graphics[plot]\<close> raises KeyError.
\<close>

definition mouseAction :: "'p CrossHair \<Rightarrow> string \<Rightarrow> 'p \<Rightarrow> error option \<times> 'p CrossHair" where
  "mouseAction self action plot =
     (if action = ''Enter'' then
        (let s1 = self\<lparr>active_plot := Some plot\<rparr> in
         case map_of (graphics s1) plot of
           None \<Rightarrow> (Some KeyError, s1)
         | Some g \<Rightarrow>
             (None, s1\<lparr>graphics := dict_set plot
                       (g\<lparr>hl_shown := True, yl := (yl g)\<lparr>lab_shown := True\<rparr>\<rparr>) (graphics s1)\<rparr>))
      else
        (let s1 = self\<lparr>active_plot := None\<rparr> in
         case map_of (graphics s1) plot of
           None \<Rightarrow> (Some KeyError, s1)
         | Some g \<Rightarrow>
             (None, s1\<lparr>graphics := dict_set plot
                       (g\<lparr>hl_shown := False, yl := (yl g)\<lparr>lab_shown := False\<rparr>\<rparr>) (graphics s1)\<rparr>)))"

text \<open>
  The body of \<^verbatim>\<open>for plot, opts in self.graphics.items()\<close> in \<^verbatim>\<open>mouseMoved\<close>, on one
  entry: the vertical line, the contents labels, the cursors (\<^verbatim>\<open>opts.get('cursors', ())\<close>).
\<close>

definition snap_entry :: "int \<Rightarrow> plot_graphics \<Rightarrow> plot_graphics" where
  "snap_entry ix g =
     g\<lparr>vl := of_int ix,
       contents := ix # contents g,
       cursors := (case cursors g of None \<Rightarrow> None | Some cs \<Rightarrow> Some (map (\<lambda>c. ix) cs))\<rparr>"

text \<open>
  \<^verbatim>\<open>mouseMoved\<close>, with \<open>pos = evt[0]\<close>. After the loop the name \<^verbatim>\<open>plot\<close> is the last
  key of \<^verbatim>\<open>self.graphics\<close>, and the x-axis label is placed through that plot.
\<close>

definition mouseMoved ::
  "('p \<Rightarrow> point \<Rightarrow> point) \<Rightarrow> ('p \<Rightarrow> point \<Rightarrow> point) \<Rightarrow> 'p CrossHair \<Rightarrow> point
     \<Rightarrow> error option \<times> 'p CrossHair" where
  "mouseMoved to_view from_view self pos =
     (case active_plot self of
        None \<Rightarrow> (None, self)
      | Some plot \<Rightarrow>
          (let mouse_point = to_view plot pos; x = fst mouse_point; y = snd mouse_point in
           case map_of (graphics self) plot of
             None \<Rightarrow> (Some KeyError, self)
           | Some g \<Rightarrow>
               (let s1 = self\<lparr>graphics := dict_set plot
                            (g\<lparr>hl := y, yl := (yl g)\<lparr>lab_args := Some (pos, y)\<rparr>\<rparr>)
                            (graphics self)\<rparr>;
                    ix = py_round x
                in if Some ix \<noteq> lastx s1 then
                     (let s2 = s1\<lparr>graphics := map (\<lambda>(p, opts). (p, snap_entry ix opts)) (graphics s1)\<rparr>;
                          plot' = fst (last (graphics s2))
                      in case xaxis_label s2 of
                           None \<Rightarrow> (Some AttributeError, s2)
                         | Some xl \<Rightarrow>
                             (None, s2\<lparr>xaxis_label :=
                                        Some (xl\<lparr>xl_args := Some (from_view plot' (of_int ix, y), x)\<rparr>),
                                      lastx := Some ix\<rparr>))
                   else (None, s1\<lparr>lastx := Some ix\<rparr>))))"


section \<open>Number formatting\<close>

text \<open>
  Python's \<^verbatim>\<open>'{:.Nf}'\<close> and \<^verbatim>\<open>'{:,.Nf}'\<close> on a float: the value is rounded to \<open>N\<close>
  decimals (the exact value, a tie going to the even digit), written with a minus sign
  when it is negative, the integer part grouped in threes by commas when the comma option
  is given, and followed by a point and exactly \<open>N\<close> digits when \<open>N > 0\<close>.
\<close>

definition digit_char :: "nat \<Rightarrow> char" where
  "digit_char d = ''0123456789'' ! d"

fun dec_digits :: "nat \<Rightarrow> string" where
  "dec_digits n = (if n < 10 then [digit_char n] else dec_digits (n div 10) @ [digit_char (n mod 10)])"

declare dec_digits.simps [simp del]

text \<open>Grouping in threes, on the reversed digit string.\<close>

fun commas_rev :: "string \<Rightarrow> string" where
  "commas_rev (a # b # c # d # rest) = a # b # c # CHR '','' # commas_rev (d # rest)"
| "commas_rev ds = ds"

definition group3 :: "string \<Rightarrow> string" where
  "group3 ds = rev (commas_rev (rev ds))"

definition format_f :: "bool \<Rightarrow> nat \<Rightarrow> real \<Rightarrow> string" where
  "format_f grouped n x =
     (let scaled = nat (py_round (\<bar>x\<bar> * 10 ^ n));
          ip = dec_digits (scaled div 10 ^ n);
          fp = dec_digits (scaled mod 10 ^ n)
      in (if x < 0 then ''-'' else '''')
         @ (if grouped then group3 ip else ip)
         @ (if n = 0 then '''' else ''.'' @ replicate (n - length fp) CHR ''0'' @ fp))"

text \<open>\<^verbatim>\<open>s.replace(',', ' ')\<close>.\<close>

definition replace_comma :: "string \<Rightarrow> string" where
  "replace_comma s = map (\<lambda>c. if c = CHR '','' then CHR '' '' else c) s"

section \<open>\<^verbatim>\<open>ContentsLabel\<close>\<close>

text \<open>
  A row of the structured array shown in a contents label: its \<^verbatim>\<open>'index'\<close> field and its
  other fields by name. Reading a field the row does not have is numpy's ValueError.
\<close>

record datum =
  d_index :: int
  d_fields :: "string \<rightharpoonup> real"

record ContentsLabel =
  text_l :: string

text \<open>
  \<^verbatim>\<open>update_from_value\<close> of \<^verbatim>\<open>_graphics/__init__.py\<close>: \<^verbatim>\<open>array[0]\<close> and
  \<^verbatim>\<open>array[index - first]\<close> raise IndexError out of range, and \<^verbatim>\<open>setText\<close> is the only
  statement that changes the label.
\<close>

definition update_from_value ::
  "ContentsLabel \<Rightarrow> string \<Rightarrow> int \<Rightarrow> datum list \<Rightarrow> error option \<times> ContentsLabel" where
  "update_from_value self name i array =
     (case py_get array 0 of
        Inl e \<Rightarrow> (Some e, self)
      | Inr r0 \<Rightarrow>
          (let first = d_index r0 in
           case py_get array (- 1) of
             Inl e \<Rightarrow> (Some e, self)
           | Inr rl \<Rightarrow>
               if i < d_index rl \<and> i > first then
                 (case py_get array (i - first) of
                    Inl e \<Rightarrow> (Some e, self)
                  | Inr r \<Rightarrow>
                      (case d_fields r name of
                         None \<Rightarrow> (Some ValueError, self)
                       | Some data \<Rightarrow>
                           (None, self\<lparr>text_l := name @ '': '' @ format_f False 2 data\<rparr>)))
               else (None, self)))"

section \<open>Level labels and level lines\<close>

text \<open>
  A \<^verbatim>\<open>LevelLabel\<close>: the fields its methods read and write. \<open>digits_l\<close> is the
  \<^verbatim>\<open>digits\<close> attribute set by the base class, \<open>label_pos\<close> the position given to
  \<^verbatim>\<open>setPos\<close>, \<open>rect_h\<close> and \<open>rect_w\<close> the height and width of the label's measured
  box. An \<^verbatim>\<open>L1Label\<close> adds the size of the order queue and its digits.
\<close>

record LevelLabel =
  label_str :: string
  level :: real
  digits_l :: nat
  orient_v :: string
  orient_h :: string
  v_shift :: real
  h_shift :: real
  rect_h :: real
  rect_w :: real
  label_pos :: point

record L1Label = LevelLabel +
  size_l :: real
  size_digits :: nat

text \<open>
  \<^verbatim>\<open>LevelLabel.__init__\<close>: the two shifts come from dict lookups on the orientation
  (KeyError on any other word); \<open>lv\<close> is the class attribute \<^verbatim>\<open>level = 0\<close>. The label
  text, the box and the position are those the base class arrives with.
\<close>

definition LevelLabel_init ::
  "nat \<Rightarrow> string \<Rightarrow> real \<times> real \<Rightarrow> point \<Rightarrow> string \<Rightarrow> string \<Rightarrow> error + LevelLabel" where
  "LevelLabel_init dg str0 box pos0 ov oh =
     (case map_of [(''top'', 1), (''bottom'', 0), (''middle'', 1 / 2)] ov of
        None \<Rightarrow> Inl KeyError
      | Some vs \<Rightarrow>
          (case map_of [(''left'', - 1), (''right'', 0)] oh of
             None \<Rightarrow> Inl KeyError
           | Some hs \<Rightarrow>
               Inr \<lparr>label_str = str0, level = 0, digits_l = dg, orient_v = ov, orient_h = oh,
                    v_shift = vs, h_shift = hs, rect_h = fst box, rect_w = snd box,
                    label_pos = pos0\<rparr>))"

text \<open>\<^verbatim>\<open>LevelLabel.set_label_str\<close>.\<close>

definition set_label_str :: "'a LevelLabel_scheme \<Rightarrow> real \<Rightarrow> error + 'a LevelLabel_scheme" where
  "set_label_str self lv =
     Inr (self\<lparr>label_str := replace_comma (format_f False (digits_l self) lv)\<rparr>)"

text \<open>
  \<^verbatim>\<open>L1Label.set_label_str\<close> of \<^verbatim>\<open>_graphics/__init__.py\<close>. \<^verbatim>\<open>self.size or '?'\<close> is the
  string \<^verbatim>\<open>'?'\<close> when the size is zero, and the format code \<^verbatim>\<open>f\<close> of the size field
  raises ValueError on a string.
\<close>

definition L1_set_label_str :: "'a L1Label_scheme \<Rightarrow> real \<Rightarrow> error + 'a L1Label_scheme" where
  "L1_set_label_str self lv =
     (if size_l self = 0 then Inl ValueError
      else Inr (self\<lparr>label_str :=
             replace_comma (format_f False (size_digits self) (size_l self) @ '' x ''
                            @ format_f True (digits_l self) lv)\<rparr>))"

text \<open>
  \<^verbatim>\<open>L1Label.set_label_str\<close> of the older \<^verbatim>\<open>_graphics.py\<close>: the size field has no format
  code, so it is written by \<^verbatim>\<open>str\<close>, which is the parameter \<open>str_of\<close> for a number.
\<close>

definition L1_set_label_str_legacy ::
  "(real \<Rightarrow> string) \<Rightarrow> 'a L1Label_scheme \<Rightarrow> real \<Rightarrow> error + 'a L1Label_scheme" where
  "L1_set_label_str_legacy str_of self lv =
     Inr (self\<lparr>label_str :=
            replace_comma ((if size_l self = 0 then ''?'' else str_of (size_l self)) @ '' x ''
                           @ format_f True (digits_l self) lv)\<rparr>)"

text \<open>
  Modelled from the spec: \<^verbatim>\<open>boundingRect\<close> of the label's base class, which is not in
  the sources at hand. The specification has every label measure its box once, against a
  representative string, so that value updates never change the footprint: the box is the
  stored one, as (height, width).
\<close>

definition boundingRect :: "'a LevelLabel_scheme \<Rightarrow> real \<times> real" where
  "boundingRect self = (rect_h self, rect_w self)"

text \<open>
  \<^verbatim>\<open>LevelLabel.update_label(abs_pos, level, offset)\<close>. The call \<^verbatim>\<open>self.set_label_str\<close>
  goes to the method of the label's class, which is the argument \<open>set_str\<close>; when it
  raises, nothing else is done.
\<close>

definition update_label ::
  "('a LevelLabel_scheme \<Rightarrow> real \<Rightarrow> error + 'a LevelLabel_scheme) \<Rightarrow> 'a LevelLabel_scheme
     \<Rightarrow> point \<Rightarrow> real \<Rightarrow> real \<Rightarrow> error option \<times> 'a LevelLabel_scheme" where
  "update_label set_str self abs_pos lv offset =
     (case set_str self lv of
        Inl e \<Rightarrow> (Some e, self)
      | Inr s1 \<Rightarrow>
          (let br = boundingRect s1; h = fst br; wd = snd br;
               s2 = s1\<lparr>label_pos := (h_shift s1 * wd - offset,
                                     snd abs_pos - (v_shift s1 * h) - offset)\<rparr>
           in (None, s2\<lparr>level := lv\<rparr>)))"

text \<open>
  Modelled from the spec: \<^verbatim>\<open>update_from_data(index, value)\<close> of the label's base class,
  which is not in the sources at hand. The specification has a drag update the level,
  recompute the text and reposition the label relative to its axis: the label is updated
  at the scene position of \<open>(index, value)\<close>, through the chart's \<^verbatim>\<open>mapFromView\<close>, with
  the default offset 1.
\<close>

definition update_from_data ::
  "(point \<Rightarrow> point) \<Rightarrow> ('a LevelLabel_scheme \<Rightarrow> real \<Rightarrow> error + 'a LevelLabel_scheme)
     \<Rightarrow> 'a LevelLabel_scheme \<Rightarrow> int \<Rightarrow> real \<Rightarrow> error option \<times> 'a LevelLabel_scheme" where
  "update_from_data from_view set_str self i v =
     update_label set_str self (from_view (of_int i, v)) v 1"

text \<open>
  A \<^verbatim>\<open>LevelLine\<close>: its label and its position (\<^verbatim>\<open>self.value()\<close> of the
  \<^verbatim>\<open>InfiniteLine\<close>). \<^verbatim>\<open>set_level\<close> ignores its argument and reads the position of the line.
\<close>

record LevelLine =
  line_label :: LevelLabel
  line_value :: real

definition set_level :: "(point \<Rightarrow> point) \<Rightarrow> LevelLine \<Rightarrow> real \<Rightarrow> error option \<times> LevelLine" where
  "set_level from_view self v =
     (case update_from_data from_view set_label_str (line_label self) 0 (line_value self) of
        (e, l) \<Rightarrow> (e, self\<lparr>line_label := l\<rparr>))"

text \<open>
  A drag of the line to \<open>v\<close>: pyqtgraph moves the line and emits
  \<^verbatim>\<open>sigPositionChanged\<close> with the line as argument, which \<^verbatim>\<open>__init__\<close> connects to \<^verbatim>\<open>set_level\<close>.
\<close>

definition drag_to :: "(point \<Rightarrow> point) \<Rightarrow> LevelLine \<Rightarrow> real \<Rightarrow> error option \<times> LevelLine" where
  "drag_to from_view self v = set_level from_view (self\<lparr>line_value := v\<rparr>) v"



text \<open>
  The object as the first block leaves it before the history draw, on an array that fits
  the table (the new rows written, the cursor advanced), and after that draw.
\<close>

definition written :: "BarItems \<Rightarrow> ohlc list \<Rightarrow> BarItems" where
  "written self array =
     self\<lparr>lines := take (nat (index self)) (lines self)
                 @ map (bar_lines (w self)) (drop (nat (index self)) array)
                 @ drop (length array) (lines self),
           index := int (length array)\<rparr>"

definition appended :: "BarItems \<Rightarrow> ohlc list \<Rightarrow> BarItems" where
  "appended self array = snd (draw_lines (written self array) 0 None True)"

text \<open>The three bars of the scenario of the specification.\<close>

definition scenario_bars :: "ohlc list" where
  "scenario_bars =
     [\<lparr>index_f = 0, open_f = 10, high_f = 12, low_f = 9, close_f = 11, volume_f = 0\<rparr>,
      \<lparr>index_f = 1, open_f = 11, high_f = 11, low_f = 11, close_f = 11, volume_f = 0\<rparr>,
      \<lparr>index_f = 2, open_f = 11, high_f = 14, low_f = 10, close_f = 13, volume_f = 0\<rparr>]"

text \<open>A row of the table that an append has written: both arms are lines and the body is a
  line or \<^verbatim>\<open>None\<close>, not the \<open>0\<close> of an unwritten row.\<close>

definition allocated :: "row \<Rightarrow> bool" where
  "allocated r = (case r of (body, Line la, Line ra) \<Rightarrow> body \<noteq> Zero | _ \<Rightarrow> False)"

text \<open>
  The state that appends leave behind: every row below the cursor is a written one.
\<close>

definition rows_written :: "BarItems \<Rightarrow> bool" where
  "rows_written self = list_all allocated (take (nat (index self)) (lines self))"

text \<open>The body cell that the current-bar update leaves for a bar.\<close>

definition new_body :: "ohlc \<Rightarrow> cell" where
  "new_body q =
     (if low_f q = high_f q then PyNone
      else Line \<lparr>x1 = of_int (index_f q), y1 = low_f q, x2 = of_int (index_f q), y2 = high_f q\<rparr>)"

text \<open>The arm of a row moved to a new price (a cell that is not a line is left alone).\<close>

definition set_y :: "cell \<Rightarrow> real \<Rightarrow> cell" where
  "set_y c y = (case c of Line l \<Rightarrow> Line \<lparr>x1 = x1 l, y1 = y, x2 = x2 l, y2 = y\<rparr> | _ \<Rightarrow> c)"

text \<open>The last row after the current-bar update has run on it for bar \<open>q\<close>.\<close>

definition live_row :: "row \<Rightarrow> ohlc \<Rightarrow> row" where
  "live_row r q = (new_body q, set_y (fst (snd r)) (open_f q), set_y (snd (snd r)) (close_f q))"

text \<open>The table after the scenario bars were appended to a fresh \<^verbatim>\<open>BarItems\<close>.\<close>

definition scenario_table :: BarItems where
  "scenario_table = snd (update_from_array BarItems_init scenario_bars False)"

text \<open>The scenario array with its last bar mutated to \<open>low = high\<close>.\<close>

definition scenario_flat :: "ohlc list" where
  "scenario_flat =
     [\<lparr>index_f = 0, open_f = 10, high_f = 12, low_f = 9, close_f = 11, volume_f = 0\<rparr>,
      \<lparr>index_f = 1, open_f = 11, high_f = 11, low_f = 11, close_f = 11, volume_f = 0\<rparr>,
      \<lparr>index_f = 2, open_f = 11, high_f = 12, low_f = 12, close_f = 12, volume_f = 0\<rparr>]"






text \<open>The scenario array with a fourth bar.\<close>

definition scenario_four :: "ohlc list" where
  "scenario_four =
     scenario_bars @ [\<lparr>index_f = 3, open_f = 13, high_f = 15, low_f = 12, close_f = 14, volume_f = 0\<rparr>]"

section \<open>Scenarios of the crosshair\<close>

text \<open>The entry of the active plot after the unconditional part of \<^verbatim>\<open>mouseMoved\<close>: the
  horizontal line at \<open>y\<close>, the y-axis label updated with the position and \<open>y\<close>.\<close>

definition moved_entry :: "point \<Rightarrow> real \<Rightarrow> plot_graphics \<Rightarrow> plot_graphics" where
  "moved_entry pos y g = g\<lparr>hl := y, yl := (yl g)\<lparr>lab_args := Some (pos, y)\<rparr>\<rparr>"

text \<open>The two linked panels of the scenario of the specification.\<close>

datatype panel = PanelA | PanelB

text \<open>Identity coordinate transforms for the scenario.\<close>

definition view_id :: "panel \<Rightarrow> point \<Rightarrow> point" where
  "view_id p pos = pos"

text \<open>Both panels registered, and one curve cursor on the first.\<close>

definition two_panels :: "panel CrossHair" where
  "two_panels =
     snd (add_curve_cursor
       (add_plot ''bottom'' view_id (add_plot ''bottom'' view_id (CrossHair_init 0) PanelA) PanelB)
       PanelA 7)"

text \<open>The pointer enters panel A and then panel B, with no leave from A in between.\<close>

definition entered_A_then_B :: "panel CrossHair" where
  "entered_A_then_B =
     snd (mouseAction (snd (mouseAction two_panels ''Enter'' PanelA)) ''Enter'' PanelB)"

section \<open>Scenarios of the labels\<close>

text \<open>Four rows of an indicator array, with indices 5 to 8.\<close>

definition rsi_rows :: "datum list" where
  "rsi_rows =
     [\<lparr>d_index = 5, d_fields = [''rsi'' \<mapsto> 50]\<rparr>,
      \<lparr>d_index = 6, d_fields = [''rsi'' \<mapsto> 111 / 2]\<rparr>,
      \<lparr>d_index = 7, d_fields = [''rsi'' \<mapsto> 60]\<rparr>,
      \<lparr>d_index = 8, d_fields = [''rsi'' \<mapsto> 65]\<rparr>]"

text \<open>The bid label as \<^verbatim>\<open>L1Labels\<close> creates it: two price digits, no size digits, and the
  size still at its class default 0.\<close>

definition bid_label :: L1Label where
  "bid_label =
     \<lparr>label_str = '''', level = 0, digits_l = 2, orient_v = ''bottom'', orient_h = ''left'',
      v_shift = 0, h_shift = - 1, rect_h = 12, rect_w = 90, label_pos = (0, 0),
      size_l = 0, size_digits = 0\<rparr>"

text \<open>The two shifts are those that \<^verbatim>\<open>__init__\<close> looks up for the orientation of the label.\<close>

definition shifts_ok :: "'a LevelLabel_scheme \<Rightarrow> bool" where
  "shifts_ok l =
     ((orient_v l = ''top'' \<and> v_shift l = 1 \<or> orient_v l = ''bottom'' \<and> v_shift l = 0
        \<or> orient_v l = ''middle'' \<and> v_shift l = 1 / 2)
      \<and> (orient_h l = ''left'' \<and> h_shift l = - 1 \<or> orient_h l = ''right'' \<and> h_shift l = 0))"

text \<open>The label that \<^verbatim>\<open>level_line\<close> makes for the level 100 with two digits: built by
  \<^verbatim>\<open>__init__\<close>, then updated from the level.\<close>

definition price_label :: LevelLabel where
  "price_label =
     snd (update_from_data (\<lambda>p. p) set_label_str
            (projr (LevelLabel_init 2 '''' (12, 40) (0, 0) ''top'' ''left'')) 0 100)"

text \<open>The level line at 100 with that label.\<close>

definition price_line :: LevelLine where
  "price_line = \<lparr>line_label = price_label, line_value = 100\<rparr>"

section \<open>Properties of the bar table\<close>

lemma fill_lines_eq:
  "i + length qs \<le> length ls \<Longrightarrow>
   fill_lines hw ls i qs = take i ls @ map (bar_lines hw) qs @ drop (i + length qs) ls"
proof (induction qs arbitrary: ls i)
  case Nil
  then show ?case by simp
next
  case (Cons q qs)
  have a: "Suc i + length qs \<le> length (ls[i := bar_lines hw q])" using Cons.prems by simp
  have b: "i < length ls" using Cons.prems by simp
  show ?case
    using Cons.IH[OF a] b
    by (simp add: take_Suc_conv_app_nth)
qed

lemma bars_from_ohlc_0: "bars_from_ohlc data hw 0 = map (bar_lines hw) data"
  by (simp add: bars_from_ohlc_def mk_lines_array_def fill_lines_eq)

lemma py_slice_tail:
  "0 \<le> a \<Longrightarrow> a \<le> int (length xs) \<Longrightarrow> py_slice xs a (int (length xs)) = drop (nat a) xs"
  by (simp add: py_slice_def py_clip_def Let_def)

lemma py_clip_nat: "0 \<le> a \<Longrightarrow> a \<le> int n \<Longrightarrow> py_clip n a = nat a"
  by (simp add: py_clip_def)

lemma py_slice_assign_fits:
  assumes "0 \<le> a" and "a + int (length vs) \<le> int (length xs)"
  shows "py_slice_assign xs a (a + int (length vs)) vs =
           Inr (take (nat a) xs @ vs @ drop (nat a + length vs) xs)"
proof -
  have s: "py_clip (length xs) a = nat a"
    using assms by (intro py_clip_nat) linarith+
  have e: "py_clip (length xs) (a + int (length vs)) = nat (a + int (length vs))"
    using assms by (intro py_clip_nat) linarith+
  have n: "nat (a + int (length vs)) = nat a + length vs"
    using assms(1) by linarith
  show ?thesis
    unfolding py_slice_assign_def Let_def s e n by simp
qed

lemma draw_lines_lines [simp]: "lines (snd (draw_lines s a b jh)) = lines s"
  by (simp add: draw_lines_def Let_def split: sum.splits)

lemma draw_lines_index [simp]: "index (snd (draw_lines s a b jh)) = index s"
  by (simp add: draw_lines_def Let_def split: sum.splits)

lemma draw_lines_w [simp]: "w (snd (draw_lines s a b jh)) = w s"
  by (simp add: draw_lines_def Let_def split: sum.splits)

lemma py_get_last: "xs \<noteq> [] \<Longrightarrow> py_get xs (- 1) = Inr (last xs)"
  by (cases xs rule: rev_cases) (auto simp add: py_get_def py_norm_def nat_add_distrib)

lemma py_norm_nat: "0 \<le> i \<Longrightarrow> i < int n \<Longrightarrow> py_norm n i = Some (nat i)"
  by (simp add: py_norm_def)

lemma append_new_fits:
  assumes "0 \<le> index self" and "index self < int (length array)"
    and "length array \<le> length (lines self)"
  shows "append_new self array (index self) (int (length array) - index self) =
           draw_lines (written self array) 0 None True"
proof -
  let ?vs = "map (bar_lines (w self)) (drop (nat (index self)) array)"
  have new: "py_slice array (index self) (index self + (int (length array) - index self))
               = drop (nat (index self)) array"
    using assms by (simp add: py_slice_tail)
  have len: "int (length ?vs) = int (length array) - index self"
    using assms by simp
  have fits: "index self + int (length ?vs) \<le> int (length (lines self))"
    using assms by simp
  have natlen: "nat (index self) + length ?vs = length array"
    using assms by simp
  show ?thesis
    unfolding append_new_def Let_def new bars_from_ohlc_0 written_def
    using py_slice_assign_fits[OF assms(1) fits] len natlen
    by simp
qed

lemma bar_lines_body_None: "fst (bar_lines hw q) = PyNone \<longleftrightarrow> low_f q = high_f q"
  by (simp add: bar_lines_def Let_def)



lemma update_last_consistent:
  assumes "array \<noteq> []" and "index_f (last array) = index s - 1" and "0 \<le> index s - 1"
    and "nat (index s - 1) < length (lines s)"
    and "lines s ! nat (index s - 1) = bar_lines (w s) (last array)"
  shows "update_last s array i0 = draw_lines s 0 None False"
proof -
  let ?k = "nat (index s - 1)"
  let ?q = "last array"
  obtain body larm rarm where row: "lines s ! ?k = (body, larm, rarm)"
    by (cases "lines s ! ?k") auto
  have cells: "(body, larm, rarm) = bar_lines (w s) ?q"
    using row assms(5) by simp
  have nrm: "py_norm (length (lines s)) (index_f ?q) = Some ?k"
    using assms by (simp add: py_norm_nat)
  have r: "set_arm rarm (close_f ?q) = Inr rarm"
    using cells by (auto simp add: bar_lines_def Let_def set_arm_def)
  have l: "set_arm larm (open_f ?q) = Inr larm"
    using cells by (auto simp add: bar_lines_def Let_def set_arm_def)
  have same: "(lines s)[?k := (body, larm, rarm)] = lines s"
    using row by (metis list_update_id)
  have upd: "update_body (lines s) ?k i0 body (index_f ?q) (low_f ?q) (high_f ?q) = Inr (lines s)"
  proof (cases "low_f ?q = high_f ?q")
    case True
    then have "body = PyNone" using cells by (simp add: bar_lines_def Let_def)
    then show ?thesis using True by (simp add: update_body_def)
  next
    case False
    then have b: "body = Line \<lparr>x1 = of_int (index_f ?q), y1 = low_f ?q,
                               x2 = of_int (index_f ?q), y2 = high_f ?q\<rparr>"
      using cells by (simp add: bar_lines_def Let_def)
    have "(lines s)[?k := (body, snd (lines s ! ?k))] = lines s"
      using row same by simp
    then show ?thesis using False b by (simp add: update_body_def)
  qed
  have eq: "s\<lparr>lines := lines s\<rparr> = s" by simp
  show ?thesis
    unfolding update_last_def py_get_last[OF assms(1)]
    using assms(2) nrm row r l same upd
    by (simp add: Let_def)
qed



lemma py_get_empty: "py_get [] i = Inl IndexError"
  by (simp add: py_get_def py_norm_def)

lemma update_last_assert:
  "array \<noteq> [] \<Longrightarrow> index_f (last array) \<noteq> index s - 1 \<Longrightarrow>
   update_last s array i0 = (Some AssertionError, s)"
  by (simp add: update_last_def py_get_last Let_def)

lemma appended_row:
  assumes "n0 \<le> k" and "k < length array" and "n0 \<le> length ls"
  shows "(take n0 ls @ map f (drop n0 array) @ rest) ! k = f (array ! k)"
proof -
  have "length (take n0 ls) = n0" using assms by simp
  moreover have "k - n0 < length (map f (drop n0 array))" using assms by simp
  ultimately have "(take n0 ls @ map f (drop n0 array) @ rest) ! k = map f (drop n0 array) ! (k - n0)"
    using assms(1) by (simp add: nth_append)
  also have "\<dots> = f (array ! k)" using assms by simp
  finally show ?thesis .
qed

lemma written_fields [simp]:
  "index (written self array) = int (length array)"
  "w (written self array) = w self"
  "history (written self array) = history self"
  "history_paints (written self array) = history_paints self"
  "last_pic (written self array) = last_pic self"
  "last_paints (written self array) = last_paints self"
  by (simp_all add: written_def)

lemma appended_fields [simp]:
  "index (appended self array) = int (length array)"
  "w (appended self array) = w self"
  "lines (appended self array) = lines (written self array)"
  by (simp_all add: appended_def)

lemma length_lines_written:
  assumes "0 \<le> index self" and "index self < int (length array)"
    and "length array \<le> length (lines self)"
  shows "length (lines (written self array)) = length (lines self)"
  using assms by (simp add: written_def)

lemma written_lines_nth:
  assumes "0 \<le> index self" and "length array \<le> length (lines self)"
    and "nat (index self) \<le> k" and "k < length array"
  shows "lines (written self array) ! k = bar_lines (w self) (array ! k)"
proof -
  have "nat (index self) \<le> length (lines self)" using assms by linarith
  then show ?thesis
    unfolding written_def
    using assms by (simp add: appended_row)
qed

lemma update_from_array_append:
  assumes "0 \<le> index self" and "index self < int (length array)"
    and "length array \<le> length (lines self)"
  shows "update_from_array self array jh =
           (if fst (draw_lines (written self array) 0 None True) \<noteq> None
            then draw_lines (written self array) 0 None True
            else if jh then (None, appended self array)
            else if index_f (last array) = int (length array) - 1
                 then draw_lines (appended self array) 0 None False
                 else (Some AssertionError, appended self array))"
proof -
  let ?s = "appended self array"
  let ?d = "draw_lines (written self array) 0 None True"
  have ne: "array \<noteq> []" using assms by auto
  have pos: "0 < length array" using ne by simp
  have app: "append_new self array (index self) (int (length array) - index self) = ?d"
    by (rule append_new_fits[OF assms])
  have d: "?d = (fst ?d, ?s)" by (simp add: appended_def)
  have ix: "index ?s = int (length array)" by simp
  have k: "nat (index ?s - 1) = length array - 1" using ix by simp
  have kk: "nat (index self) \<le> length array - 1" using assms(1,2) by linarith
  have kl: "length array - 1 < length array" using pos by simp
  have row: "lines ?s ! (length array - 1) = bar_lines (w self) (last array)"
    using written_lines_nth[OF assms(1,3) kk kl] ne by (simp add: last_conv_nth)
  have len: "length (lines ?s) = length (lines self)"
    using length_lines_written[OF assms] by simp
  have upd: "update_last ?s array (index self) = draw_lines ?s 0 None False"
    if e: "index_f (last array) = int (length array) - 1"
  proof -
    have c2: "index_f (last array) = index ?s - 1" using e ix by simp
    have c3: "0 \<le> index ?s - 1" using ix pos by simp
    have "length array - 1 < length (lines self)" using pos assms(3) by linarith
    then have c4: "nat (index ?s - 1) < length (lines ?s)" using k len by simp
    have c5: "lines ?s ! nat (index ?s - 1) = bar_lines (w ?s) (last array)"
      using k row by simp
    show ?thesis by (rule update_last_consistent[OF ne c2 c3 c4 c5])
  qed
  have asr: "index_f (last array) \<noteq> int (length array) - 1 \<Longrightarrow>
             update_last ?s array (index self) = (Some AssertionError, ?s)"
    using ne ix by (simp add: update_last_assert)
  have extra: "int (length array) - index self > 0" using assms(2) by simp
  have step: "update_from_array self array jh =
                (case ?d of (Some e, s) \<Rightarrow> (Some e, s)
                 | (None, s) \<Rightarrow> if jh then (None, s) else update_last s array (index self))"
    unfolding update_from_array_def Let_def using extra app by simp
  show ?thesis
  proof (cases "fst ?d")
    case (Some e)
    then have "?d = (Some e, ?s)" using d by simp
    then show ?thesis using step Some by simp
  next
    case None
    then have dn: "?d = (None, ?s)" using d by simp
    have step': "update_from_array self array jh =
                   (if jh then (None, ?s) else update_last ?s array (index self))"
      using step unfolding dn by simp
    show ?thesis
    proof (cases jh)
      case True
      then show ?thesis using step' None by simp
    next
      case False
      show ?thesis
      proof (cases "index_f (last array) = int (length array) - 1")
        case True
        then show ?thesis using step' upd None \<open>\<not> jh\<close> by simp
      next
        case False
        then show ?thesis using step' asr None \<open>\<not> jh\<close> by simp
      qed
    qed
  qed
qed

lemma lines_after_append:
  assumes "0 \<le> index self" and "index self < int (length array)"
    and "length array \<le> length (lines self)"
  shows "lines (snd (update_from_array self array jh)) = lines (appended self array)"
    and "index (snd (update_from_array self array jh)) = int (length array)"
  using update_from_array_append[OF assms, of jh]
  by (auto simp add: appended_def split: if_splits)

lemma appended_lines_nth:
  assumes "0 \<le> index self" and "length array \<le> length (lines self)"
    and "nat (index self) \<le> k" and "k < length array"
  shows "lines (appended self array) ! k = bar_lines (w self) (array ! k)"
  using written_lines_nth[OF assms] by simp

text \<open>
  Claim C1. Every bar that \<^verbatim>\<open>update_from_array\<close> appends (a row of the array past the
  cursor, the array fitting the table) gets the geometry of \<^verbatim>\<open>bars_from_ohlc\<close>: the
  body is the vertical line from \<open>(i, low)\<close> to \<open>(i, high)\<close> when \<open>low \<noteq> high\<close> and
  \<^verbatim>\<open>None\<close> otherwise, the left arm runs from \<open>(i - w, open)\<close> to \<open>(i, open)\<close>, the right
  arm from \<open>(i, close)\<close> to \<open>(i + w, close)\<close>, with \<open>i\<close> the bar's index field; the cursor
  ends at the length of the array. The witness is the scenario of the specification.
\<close>

theorem append_geometry:
  assumes "0 \<le> index self" and "index self < int (length array)"
    and "length array \<le> length (lines self)"
    and "nat (index self) \<le> k" and "k < length array"
  shows "lines (snd (update_from_array self array jh)) ! k =
           (if low_f (array ! k) \<noteq> high_f (array ! k)
            then Line \<lparr>x1 = of_int (index_f (array ! k)), y1 = low_f (array ! k),
                        x2 = of_int (index_f (array ! k)), y2 = high_f (array ! k)\<rparr>
            else PyNone,
            Line \<lparr>x1 = of_int (index_f (array ! k)) - w self, y1 = open_f (array ! k),
                   x2 = of_int (index_f (array ! k)), y2 = open_f (array ! k)\<rparr>,
            Line \<lparr>x1 = of_int (index_f (array ! k)), y1 = close_f (array ! k),
                   x2 = of_int (index_f (array ! k)) + w self, y2 = close_f (array ! k)\<rparr>)
         \<and> index (snd (update_from_array self array jh)) = int (length array)"
  using lines_after_append[OF assms(1,2,3), of jh] appended_lines_nth[OF assms(1,3,4,5)]
  by (simp add: bar_lines_def Let_def)

theorem append_geometry_witness:
  "0 \<le> index BarItems_init \<and> index BarItems_init < int (length scenario_bars)
   \<and> length scenario_bars \<le> length (lines BarItems_init)
   \<and> index (snd (update_from_array BarItems_init scenario_bars False)) = 3
   \<and> fst (lines (snd (update_from_array BarItems_init scenario_bars False)) ! 1) = PyNone
   \<and> fst (lines (snd (update_from_array BarItems_init scenario_bars False)) ! 0)
         = Line \<lparr>x1 = 0, y1 = 9, x2 = 0, y2 = 12\<rparr>
   \<and> fst (snd (lines (snd (update_from_array BarItems_init scenario_bars False)) ! 2))
         = Line \<lparr>x1 = 157 / 100, y1 = 11, x2 = 2, y2 = 11\<rparr>"
proof -
  have h1: "0 \<le> index BarItems_init" by (simp add: BarItems_init_def)
  have h2: "index BarItems_init < int (length scenario_bars)"
    by (simp add: BarItems_init_def scenario_bars_def)
  have h3: "length scenario_bars \<le> length (lines BarItems_init)"
    by (simp add: BarItems_init_def scenario_bars_def mk_lines_array_def)
  have k0: "nat (index BarItems_init) \<le> 0" by (simp add: BarItems_init_def)
  have k1: "nat (index BarItems_init) \<le> 1" by (simp add: BarItems_init_def)
  have k2: "nat (index BarItems_init) \<le> 2" by (simp add: BarItems_init_def)
  have l0: "0 < length scenario_bars" by (simp add: scenario_bars_def)
  have l1: "1 < length scenario_bars" by (simp add: scenario_bars_def)
  have l2: "2 < length scenario_bars" by (simp add: scenario_bars_def)
  have w: "w BarItems_init = 43 / 100" by (simp add: BarItems_init_def)
  show ?thesis
    using h1 h2 h3
      append_geometry[OF h1 h2 h3 k0 l0, of False]
      append_geometry[OF h1 h2 h3 k1 l1, of False]
      append_geometry[OF h1 h2 h3 k2 l2, of False]
    by (simp add: scenario_bars_def w)
qed

lemma allocatedE:
  assumes "allocated r"
  obtains body la ra where "r = (body, Line la, Line ra)" and "body \<noteq> Zero"
proof -
  obtain body l r' where r: "r = (body, l, r')" by (cases r) auto
  from assms r obtain la where l: "l = Line la"
    by (cases l) (auto simp add: allocated_def)
  from assms r l obtain ra where ra: "r' = Line ra"
    by (cases r') (auto simp add: allocated_def)
  from assms r l ra have "body \<noteq> Zero" by (simp add: allocated_def)
  with r l ra that show thesis by blast
qed

lemma update_body_ok:
  assumes "k < length ls" and "py_norm (length ls) (i0 - 1) = Some k"
    and "body \<noteq> Zero" and "ls ! k = (body, rest)" and "i = index_f q"
  shows "update_body ls k i0 body i (low_f q) (high_f q) = Inr (ls[k := (new_body q, rest)])"
proof (cases "low_f q = high_f q")
  case True
  show ?thesis
  proof (cases "body = PyNone")
    case True
    then have "ls[k := (PyNone, rest)] = ls" using assms(4) by (metis list_update_id)
    then show ?thesis using \<open>low_f q = high_f q\<close> True
      by (simp add: update_body_def new_body_def)
  next
    case False
    then show ?thesis using \<open>low_f q = high_f q\<close> assms
      by (simp add: update_body_def new_body_def set_body_def)
  qed
next
  case False
  show ?thesis
  proof (cases body)
    case Zero
    then show ?thesis using assms by simp
  next
    case PyNone
    then show ?thesis using False assms
      by (simp add: update_body_def new_body_def set_body_def)
  next
    case (Line b)
    then show ?thesis using False assms
      by (simp add: update_body_def new_body_def)
  qed
qed

lemma update_last_ok:
  assumes ne: "array \<noteq> []" and ix: "index_f (last array) = index s - 1"
    and pos: "0 \<le> index s - 1" and k: "nat (index s - 1) < length (lines s)"
    and al: "allocated (lines s ! nat (index s - 1))"
  shows "update_last s array (index s) =
           draw_lines
              (s\<lparr>lines := (lines s)[nat (index s - 1) :=
                             live_row (lines s ! nat (index s - 1)) (last array)]\<rparr>) 0 None False"
proof -
  let ?k = "nat (index s - 1)"
  let ?q = "last array"
  from al obtain body la ra where row: "lines s ! ?k = (body, Line la, Line ra)"
    and bz: "body \<noteq> Zero" by (rule allocatedE)
  let ?la = "Line \<lparr>x1 = x1 la, y1 = open_f ?q, x2 = x2 la, y2 = open_f ?q\<rparr>"
  let ?ra = "Line \<lparr>x1 = x1 ra, y1 = close_f ?q, x2 = x2 ra, y2 = close_f ?q\<rparr>"
  let ?ls2 = "(lines s)[?k := (body, ?la, ?ra)]"
  have nrm: "py_norm (length (lines s)) (index_f ?q) = Some ?k"
    using ix pos k by (simp add: py_norm_nat)
  have r: "set_arm (Line ra) (close_f ?q) = Inr ?ra" by (simp add: set_arm_def)
  have l: "set_arm (Line la) (open_f ?q) = Inr ?la" by (simp add: set_arm_def)
  have k2: "?k < length ?ls2" using k by simp
  have nrm2: "py_norm (length ?ls2) (index s - 1) = Some ?k"
    using pos k by (simp add: py_norm_nat)
  have row2: "?ls2 ! ?k = (body, (?la, ?ra))" using k by simp
  have upd: "update_body ?ls2 ?k (index s) body (index_f ?q) (low_f ?q) (high_f ?q)
               = Inr (?ls2[?k := (new_body ?q, (?la, ?ra))])"
    by (rule update_body_ok[OF k2 nrm2 bz row2 refl])
  have lr: "live_row (lines s ! ?k) ?q = (new_body ?q, ?la, ?ra)"
    using row by (simp add: live_row_def set_y_def)
  have fin: "?ls2[?k := (new_body ?q, (?la, ?ra))] = (lines s)[?k := live_row (lines s ! ?k) ?q]"
    using lr by simp
  show ?thesis
    unfolding update_last_def py_get_last[OF ne]
    using ix nrm row r l upd fin
    by (simp add: Let_def)
qed

lemma update_from_array_no_new:
  "int (length array) \<le> index self \<Longrightarrow>
   update_from_array self array jh = update_last self array (index self)"
  by (simp add: update_from_array_def Let_def)

lemma draw_lines_history_False [simp]:
  "history (snd (draw_lines s a b False)) = history s"
  "history_paints (snd (draw_lines s a b False)) = history_paints s"
  by (simp_all add: draw_lines_def Let_def split: sum.splits)

lemma draw_lines_last_pic_cong:
  "lines s = lines t \<Longrightarrow> index s = index t \<Longrightarrow>
   last_pic (snd (draw_lines s a b False)) = last_pic (snd (draw_lines t a b False))"
  by (simp add: draw_lines_def Let_def split: sum.splits)

lemma py_slice_prefix:
  "0 \<le> b \<Longrightarrow> b \<le> int (length xs) \<Longrightarrow> py_slice xs 0 b = take (nat b) xs"
  by (simp add: py_slice_def py_clip_def Let_def)

lemma py_slice_single:
  assumes "0 \<le> a" and "a < int (length xs)"
  shows "py_slice xs a (a + 1) = [xs ! nat a]"
proof -
  have s: "py_clip (length xs) a = nat a" using assms by (simp add: py_clip_def)
  have e: "py_clip (length xs) (a + 1) = Suc (nat a)"
    using assms by (simp add: py_clip_def min_def) linarith
  have "take (Suc 0) (drop (nat a) xs) = [xs ! nat a]"
    using assms by (simp add: take_Suc_conv_app_nth)
  then show ?thesis unfolding py_slice_def Let_def s e by simp
qed

lemma live_row_allocated: "allocated r \<Longrightarrow> allocated (live_row r q)"
  by (erule allocatedE) (simp add: live_row_def set_y_def allocated_def new_body_def)

lemma live_row_idem: "live_row (live_row r q) q = live_row r q"
  by (cases r; cases "fst (snd r)"; cases "snd (snd r)")
     (simp_all add: live_row_def set_y_def)

lemma drawLines_row:
  assumes "allocated r"
  shows "drawLines (filter (\<lambda>c. c \<noteq> PyNone) (ravel [r]))
           = Inr (filter (\<lambda>c. c \<noteq> PyNone) (ravel [r]))"
proof -
  from assms obtain body la ra where r: "r = (body, Line la, Line ra)" and bz: "body \<noteq> Zero"
    by (rule allocatedE)
  show ?thesis
    using bz unfolding r
    by (cases body) (simp_all add: drawLines_def ravel_def is_line_def)
qed

lemma draw_last_ok:
  assumes "0 \<le> index s - 1" and "nat (index s - 1) < length (lines s)"
    and "allocated (lines s ! nat (index s - 1))"
  shows "draw_lines s 0 None False =
           (None, s\<lparr>last_pic := filter (\<lambda>c. c \<noteq> PyNone) (ravel [lines s ! nat (index s - 1)]),
                    last_paints := Suc (last_paints s)\<rparr>)"
proof -
  have lt: "index s - 1 < int (length (lines s))" using assms(1,2) by linarith
  have sl: "py_slice (lines s) (index s - 1) (index s) = [lines s ! nat (index s - 1)]"
    using py_slice_single[OF assms(1) lt] by simp
  have nz: "index s \<noteq> 0" using assms(1) by linarith
  show ?thesis
    using sl nz drawLines_row[OF assms(3)]
    by (simp add: draw_lines_def Let_def py_or_def)
qed


lemma update_last_result:
  assumes "int (length array) \<le> index self" and "array \<noteq> []"
    and "index_f (last array) = index self - 1"
    and "nat (index self - 1) < length (lines self)"
    and "allocated (lines self ! nat (index self - 1))"
  shows "update_from_array self array jh =
           (None, snd (draw_lines
              (self\<lparr>lines := (lines self)[nat (index self - 1) :=
                             live_row (lines self ! nat (index self - 1)) (last array)]\<rparr>) 0 None False))"
proof -
  let ?k = "nat (index self - 1)"
  let ?t = "self\<lparr>lines := (lines self)[?k := live_row (lines self ! ?k) (last array)]\<rparr>"
  have "0 < length array" using assms(2) by simp
  then have pos: "0 \<le> index self - 1" using assms(1) by linarith
  have p1: "0 \<le> index ?t - 1" using pos by simp
  have p2: "nat (index ?t - 1) < length (lines ?t)" using assms(4) by simp
  have p3: "allocated (lines ?t ! nat (index ?t - 1))"
    using assms(4) live_row_allocated[OF assms(5)] by simp
  have "fst (draw_lines ?t 0 None False) = None"
    unfolding draw_last_ok[OF p1 p2 p3] by simp
  then have "draw_lines ?t 0 None False = (None, snd (draw_lines ?t 0 None False))"
    by (metis prod.collapse)
  then show ?thesis
    unfolding update_from_array_no_new[OF assms(1)]
      update_last_ok[OF assms(2,3) pos assms(4,5)] .
qed

text \<open>
  Claim C5. A call of \<^verbatim>\<open>update_from_array\<close> that brings no new bar and whose last row
  carries the index of the last table row (\<open>count - 1\<close>) returns without an exception and
  leaves the body cell of that row \<^verbatim>\<open>None\<close> when \<open>low = high\<close> (removed if it was
  there, never a line of zero length), and the line from \<open>(index, low)\<close> to
  \<open>(index, high)\<close> otherwise. The last table row is one that an append has written.
\<close>

theorem update_last_body:
  assumes "int (length array) \<le> index self" and "array \<noteq> []"
    and "index_f (last array) = index self - 1"
    and "nat (index self - 1) < length (lines self)"
    and "allocated (lines self ! nat (index self - 1))"
  shows "fst (update_from_array self array jh) = None
       \<and> fst (lines (snd (update_from_array self array jh)) ! nat (index self - 1)) =
           (if low_f (last array) = high_f (last array) then PyNone
            else Line \<lparr>x1 = of_int (index_f (last array)), y1 = low_f (last array),
                        x2 = of_int (index_f (last array)), y2 = high_f (last array)\<rparr>)"
  unfolding update_last_result[OF assms]
  using assms(4) by (simp add: live_row_def new_body_def)

text \<open>
  Claim C7. Updating the last bar twice with the same array leaves the table as one
  update leaves it: the same rows, the same cursor, the same picture of the last bar; the
  rows other than the last are those before the first call, and the history picture is
  untouched.
\<close>

theorem update_last_idempotent:
  assumes "int (length array) \<le> index self" and "array \<noteq> []"
    and "index_f (last array) = index self - 1"
    and "nat (index self - 1) < length (lines self)"
    and "allocated (lines self ! nat (index self - 1))"
  shows "lines (snd (update_from_array (snd (update_from_array self array jh)) array jh))
           = lines (snd (update_from_array self array jh))
       \<and> index (snd (update_from_array (snd (update_from_array self array jh)) array jh))
           = index self
       \<and> index (snd (update_from_array self array jh)) = index self
       \<and> length (lines (snd (update_from_array self array jh))) = length (lines self)
       \<and> (\<forall>j. j \<noteq> nat (index self - 1) \<longrightarrow>
              lines (snd (update_from_array self array jh)) ! j = lines self ! j)
       \<and> last_pic (snd (update_from_array (snd (update_from_array self array jh)) array jh))
           = last_pic (snd (update_from_array self array jh))
       \<and> history (snd (update_from_array (snd (update_from_array self array jh)) array jh))
           = history self"
proof -
  let ?k = "nat (index self - 1)"
  let ?ls1 = "(lines self)[?k := live_row (lines self ! ?k) (last array)]"
  define s1 where "s1 = snd (update_from_array self array jh)"
  have s1: "s1 = snd (draw_lines (self\<lparr>lines := ?ls1\<rparr>) 0 None False)"
    unfolding s1_def update_last_result[OF assms] by simp
  have ix1: "index s1 = index self" and ls1: "lines s1 = ?ls1"
    unfolding s1 by simp_all
  have a1: "int (length array) \<le> index s1" using assms(1) ix1 by simp
  have a3: "index_f (last array) = index s1 - 1" using assms(3) ix1 by simp
  have a4: "nat (index s1 - 1) < length (lines s1)" using assms(4) ix1 ls1 by simp
  have rowk: "lines s1 ! ?k = live_row (lines self ! ?k) (last array)"
    using assms(4) ls1 by simp
  have a5: "allocated (lines s1 ! nat (index s1 - 1))"
    using rowk ix1 live_row_allocated[OF assms(5)] by simp
  define s2 where "s2 = snd (update_from_array s1 array jh)"
  have s2: "s2 = snd (draw_lines
      (s1\<lparr>lines := (lines s1)[?k := live_row (lines s1 ! ?k) (last array)]\<rparr>) 0 None False)"
    unfolding s2_def update_last_result[OF a1 assms(2) a3 a4 a5] ix1 by simp
  have same: "(lines s1)[?k := live_row (lines s1 ! ?k) (last array)] = lines s1"
    unfolding rowk live_row_idem using rowk by (metis list_update_id)
  have s2': "s2 = snd (draw_lines s1 0 None False)"
    unfolding s2 same by simp
  have c1: "lines s2 = lines s1" and c2: "index s2 = index self"
    unfolding s2' using ix1 by simp_all
  have c6: "last_pic s2 = last_pic s1"
    unfolding s2' using draw_lines_last_pic_cong[of s1 "self\<lparr>lines := ?ls1\<rparr>" 0 None] ls1 ix1
    by (simp add: s1)
  have c7: "history s2 = history self"
    unfolding s2' s1 by simp
  have c5: "\<forall>j. j \<noteq> ?k \<longrightarrow> lines s1 ! j = lines self ! j"
    unfolding ls1 by simp
  have c4: "length (lines s1) = length (lines self)" unfolding ls1 by simp
  show ?thesis
    using c1 c2 ix1 c4 c5 c6 c7 unfolding s2_def s1_def by blast
qed

lemma length_lines_appended:
  assumes "0 \<le> index self" and "index self < int (length array)"
    and "length array \<le> length (lines self)"
  shows "length (lines (appended self array)) = length (lines self)"
  using length_lines_written[OF assms] by simp

lemma allocated_bar_lines: "allocated (bar_lines hw q)"
  by (simp add: allocated_def bar_lines_def Let_def)

lemma scenario_table_facts:
  "index scenario_table = 3"
  "length (lines scenario_table) = 50000"
  "lines scenario_table ! 2 = bar_lines (43 / 100) (scenario_bars ! 2)"
proof -
  have h1: "0 \<le> index BarItems_init" by (simp add: BarItems_init_def)
  have h2: "index BarItems_init < int (length scenario_bars)"
    by (simp add: BarItems_init_def scenario_bars_def)
  have h3: "length scenario_bars \<le> length (lines BarItems_init)"
    by (simp add: BarItems_init_def scenario_bars_def mk_lines_array_def)
  have k2: "nat (index BarItems_init) \<le> 2" by (simp add: BarItems_init_def)
  have l2: "2 < length scenario_bars" by (simp add: scenario_bars_def)
  have w: "w BarItems_init = 43 / 100" by (simp add: BarItems_init_def)
  show "index scenario_table = 3"
    unfolding scenario_table_def lines_after_append(2)[OF h1 h2 h3]
    by (simp add: scenario_bars_def)
  show "length (lines scenario_table) = 50000"
    unfolding scenario_table_def lines_after_append(1)[OF h1 h2 h3]
      length_lines_appended[OF h1 h2 h3]
    by (simp add: BarItems_init_def mk_lines_array_def)
  show "lines scenario_table ! 2 = bar_lines (43 / 100) (scenario_bars ! 2)"
    unfolding scenario_table_def lines_after_append(1)[OF h1 h2 h3]
      appended_lines_nth[OF h1 h3 k2 l2] w ..
qed

theorem update_last_body_witness:
  "int (length scenario_flat) \<le> index scenario_table \<and> scenario_flat \<noteq> []
   \<and> index_f (last scenario_flat) = index scenario_table - 1
   \<and> nat (index scenario_table - 1) < length (lines scenario_table)
   \<and> allocated (lines scenario_table ! nat (index scenario_table - 1))
   \<and> fst (update_from_array scenario_table scenario_flat False) = None
   \<and> fst (lines (snd (update_from_array scenario_table scenario_flat False)) ! 2) = PyNone
   \<and> fst (lines (snd (update_from_array scenario_table scenario_bars False)) ! 2)
        = Line \<lparr>x1 = 2, y1 = 10, x2 = 2, y2 = 14\<rparr>"
proof -
  have a1: "int (length scenario_flat) \<le> index scenario_table"
    by (simp add: scenario_table_facts scenario_flat_def)
  have a2: "scenario_flat \<noteq> []" by (simp add: scenario_flat_def)
  have a3: "index_f (last scenario_flat) = index scenario_table - 1"
    by (simp add: scenario_table_facts scenario_flat_def)
  have a4: "nat (index scenario_table - 1) < length (lines scenario_table)"
    by (simp add: scenario_table_facts)
  have a5: "allocated (lines scenario_table ! nat (index scenario_table - 1))"
    by (simp add: scenario_table_facts allocated_bar_lines)
  have b1: "int (length scenario_bars) \<le> index scenario_table"
    by (simp add: scenario_table_facts scenario_bars_def)
  have b2: "scenario_bars \<noteq> []" by (simp add: scenario_bars_def)
  have b3: "index_f (last scenario_bars) = index scenario_table - 1"
    by (simp add: scenario_table_facts scenario_bars_def)
  show ?thesis
    using a1 a2 a3 a4 a5
      update_last_body[OF a1 a2 a3 a4 a5, of False]
      update_last_body[OF b1 b2 b3 a4 a5, of False]
    by (simp add: scenario_table_facts scenario_flat_def scenario_bars_def)
qed

theorem update_last_idempotent_witness:
  "int (length scenario_flat) \<le> index scenario_table \<and> scenario_flat \<noteq> []
   \<and> index_f (last scenario_flat) = index scenario_table - 1
   \<and> nat (index scenario_table - 1) < length (lines scenario_table)
   \<and> allocated (lines scenario_table ! nat (index scenario_table - 1))
   \<and> lines (snd (update_from_array (snd (update_from_array scenario_table scenario_flat False))
               scenario_flat False))
        = lines (snd (update_from_array scenario_table scenario_flat False))
   \<and> index (snd (update_from_array (snd (update_from_array scenario_table scenario_flat False))
               scenario_flat False)) = 3
   \<and> lines (snd (update_from_array scenario_table scenario_flat False)) ! 0
        = lines scenario_table ! 0"
proof -
  have a1: "int (length scenario_flat) \<le> index scenario_table"
    by (simp add: scenario_table_facts scenario_flat_def)
  have a2: "scenario_flat \<noteq> []" by (simp add: scenario_flat_def)
  have a3: "index_f (last scenario_flat) = index scenario_table - 1"
    by (simp add: scenario_table_facts scenario_flat_def)
  have a4: "nat (index scenario_table - 1) < length (lines scenario_table)"
    by (simp add: scenario_table_facts)
  have a5: "allocated (lines scenario_table ! nat (index scenario_table - 1))"
    by (simp add: scenario_table_facts allocated_bar_lines)
  show ?thesis
    using a1 a2 a3 a4 a5 update_last_idempotent[OF a1 a2 a3 a4 a5, of False]
    by (simp add: scenario_table_facts)
qed

lemma update_last_keeps_history:
  "history (snd (update_last s array i0)) = history s
   \<and> history_paints (snd (update_last s array i0)) = history_paints s"
  by (simp add: update_last_def Let_def split: sum.splits option.splits prod.splits)

lemma history_paints_appended:
  "history_paints (appended self array) = Suc (history_paints self)"
  by (simp add: appended_def draw_lines_def Let_def split: sum.splits)

lemma history_appended:
  assumes "0 \<le> index self" and "index self < int (length array)"
    and "length array \<le> length (lines self)"
  shows "history (appended self array) =
           (case drawLines (filter (\<lambda>c. c \<noteq> PyNone)
                   (ravel (take (length array - 1) (lines (appended self array))))) of
              Inl e \<Rightarrow> [] | Inr pic \<Rightarrow> pic)"
proof -
  let ?ls = "lines (written self array)"
  have len: "length ?ls = length (lines self)" by (rule length_lines_written[OF assms])
  have pos: "0 < length array" using assms by linarith
  have b0: "0 \<le> int (length array) - 1" using pos by simp
  have b1: "int (length array) - 1 \<le> int (length ?ls)" using assms(3) len by linarith
  have n: "nat (int (length array) - 1) = length array - 1" by simp
  have sl: "py_slice ?ls 0 (int (length array) - 1) = take (length array - 1) ?ls"
    using py_slice_prefix[OF b0 b1] n by simp
  show ?thesis
    using sl by (simp add: appended_def draw_lines_def Let_def py_or_def split: sum.splits)
qed

lemma drawLines_all_lines:
  "list_all is_line xs \<Longrightarrow> (case drawLines xs of Inl e \<Rightarrow> [] | Inr pic \<Rightarrow> pic) = xs"
  by (simp add: drawLines_def)

lemma ravel_Cons: "ravel (r # rows) = ravel [r] @ ravel rows"
  by (simp add: ravel_def)

lemma allocated_row_lines:
  assumes "allocated r"
  shows "list_all is_line (filter (\<lambda>c. c \<noteq> PyNone) (ravel [r]))"
proof -
  from assms obtain body la ra where r: "r = (body, Line la, Line ra)" and bz: "body \<noteq> Zero"
    by (rule allocatedE)
  show ?thesis
    using bz unfolding r
    by (cases body) (simp_all add: ravel_def is_line_def)
qed

lemma allocated_rows_lines:
  "list_all allocated rows \<Longrightarrow> list_all is_line (filter (\<lambda>c. c \<noteq> PyNone) (ravel rows))"
proof (induction rows)
  case Nil
  then show ?case by (simp add: ravel_def)
next
  case (Cons r rows)
  then have ar: "allocated r" and rest: "list_all allocated rows" by simp_all
  show ?case
    unfolding ravel_Cons[of r rows]
    using allocated_row_lines[OF ar] Cons.IH[OF rest] by simp
qed

lemma rows_written_take:
  assumes "0 \<le> index self" and "index self < int (length array)"
    and "length array \<le> length (lines self)" and "rows_written self"
    and "n \<le> length array"
  shows "list_all allocated (take n (lines (written self array)))"
proof -
  let ?ls = "lines (written self array)"
  have len: "length ?ls = length (lines self)" by (rule length_lines_written[OF assms(1,2,3)])
  have old: "allocated (lines self ! i)" if "i < nat (index self)" for i
  proof -
    have "i < length (take (nat (index self)) (lines self))" using that assms by simp
    then have "allocated (take (nat (index self)) (lines self) ! i)"
      using assms(4) unfolding rows_written_def list_all_length by blast
    then show ?thesis using that by simp
  qed
  have "allocated (?ls ! i)" if i: "i < n" for i
  proof (cases "i < nat (index self)")
    case True
    have "?ls ! i = lines self ! i"
      unfolding written_def using True assms by (simp add: nth_append)
    then show ?thesis using old[OF True] by simp
  next
    case False
    then have k1: "nat (index self) \<le> i" by simp
    have k2: "i < length array" using i assms(5) by simp
    show ?thesis
      unfolding written_lines_nth[OF assms(1,3) k1 k2] by (rule allocated_bar_lines)
  qed
  then show ?thesis
    using assms(3,5) len unfolding list_all_length by simp
qed

lemma rows_written_below_last:
  assumes "0 \<le> index self" and "index self < int (length array)"
    and "length array \<le> length (lines self)" and "rows_written self"
  shows "list_all allocated (take (length array - 1) (lines (written self array)))"
  by (rule rows_written_take[OF assms]) simp

lemma rows_written_after_append:
  assumes "0 \<le> index self" and "index self < int (length array)"
    and "length array \<le> length (lines self)" and "rows_written self"
  shows "rows_written (snd (update_from_array self array jh))"
  unfolding rows_written_def lines_after_append[OF assms(1,2,3)] appended_fields
  using rows_written_take[OF assms, of "length array"] by simp

lemma rows_written_init: "rows_written BarItems_init"
  by (simp add: rows_written_def BarItems_init_def)

lemma history_after_append:
  assumes "0 \<le> index self" and "index self < int (length array)"
    and "length array \<le> length (lines self)"
  shows "history (snd (update_from_array self array jh)) = history (appended self array)"
    and "history_paints (snd (update_from_array self array jh))
           = history_paints (appended self array)"
  unfolding update_from_array_append[OF assms]
  by (simp_all add: appended_def)

text \<open>
  Claim C3. A call that brings no new bar leaves the history picture alone (it is not
  painted: same content, same number of painter sessions) and, when it succeeds, paints
  the picture of the last bar once, from the last table row. A call that appends bars
  opens one painter session on the history picture, for all rows but the last one: the
  picture holds what the painter recorded for them, which is all their lines whenever
  the rows below the cursor were written by earlier appends.
\<close>

theorem history_redrawn_on_append_only:
  "(int (length array) \<le> index self \<longrightarrow>
      history (snd (update_from_array self array jh)) = history self
      \<and> history_paints (snd (update_from_array self array jh)) = history_paints self)
   \<and> (int (length array) \<le> index self \<and> array \<noteq> []
        \<and> index_f (last array) = index self - 1
        \<and> nat (index self - 1) < length (lines self)
        \<and> allocated (lines self ! nat (index self - 1)) \<longrightarrow>
      last_pic (snd (update_from_array self array jh)) =
        filter (\<lambda>c. c \<noteq> PyNone)
          (ravel [lines (snd (update_from_array self array jh)) ! nat (index self - 1)])
      \<and> last_paints (snd (update_from_array self array jh)) = Suc (last_paints self))
   \<and> (0 \<le> index self \<and> index self < int (length array)
        \<and> length array \<le> length (lines self) \<longrightarrow>
      history_paints (snd (update_from_array self array jh)) = Suc (history_paints self)
      \<and> history (snd (update_from_array self array jh)) =
          (case drawLines (filter (\<lambda>c. c \<noteq> PyNone)
                  (ravel (take (length array - 1)
                     (lines (snd (update_from_array self array jh)))))) of
             Inl e \<Rightarrow> [] | Inr pic \<Rightarrow> pic)
      \<and> (rows_written self \<longrightarrow>
           history (snd (update_from_array self array jh)) =
             filter (\<lambda>c. c \<noteq> PyNone)
               (ravel (take (length array - 1)
                  (lines (snd (update_from_array self array jh)))))))"
proof (intro conjI impI)
  assume a: "int (length array) \<le> index self"
  show "history (snd (update_from_array self array jh)) = history self"
    unfolding update_from_array_no_new[OF a] using update_last_keeps_history by blast
  show "history_paints (snd (update_from_array self array jh)) = history_paints self"
    unfolding update_from_array_no_new[OF a] using update_last_keeps_history by blast
next
  assume h: "int (length array) \<le> index self \<and> array \<noteq> []
        \<and> index_f (last array) = index self - 1
        \<and> nat (index self - 1) < length (lines self)
        \<and> allocated (lines self ! nat (index self - 1))"
  then have a1: "int (length array) \<le> index self" and a2: "array \<noteq> []"
    and a3: "index_f (last array) = index self - 1"
    and a4: "nat (index self - 1) < length (lines self)"
    and a5: "allocated (lines self ! nat (index self - 1))" by blast+
  let ?k = "nat (index self - 1)"
  let ?t = "self\<lparr>lines := (lines self)[?k := live_row (lines self ! ?k) (last array)]\<rparr>"
  have "0 < length array" using a2 by simp
  then have pos: "0 \<le> index self - 1" using a1 by linarith
  have p1: "0 \<le> index ?t - 1" using pos by simp
  have p2: "nat (index ?t - 1) < length (lines ?t)" using a4 by simp
  have p3: "allocated (lines ?t ! nat (index ?t - 1))"
    using a4 live_row_allocated[OF a5] by simp
  show "last_pic (snd (update_from_array self array jh)) =
        filter (\<lambda>c. c \<noteq> PyNone)
          (ravel [lines (snd (update_from_array self array jh)) ! nat (index self - 1)])"
    unfolding update_last_result[OF a1 a2 a3 a4 a5] draw_last_ok[OF p1 p2 p3] by simp
  show "last_paints (snd (update_from_array self array jh)) = Suc (last_paints self)"
    unfolding update_last_result[OF a1 a2 a3 a4 a5] draw_last_ok[OF p1 p2 p3] by simp
next
  assume h: "0 \<le> index self \<and> index self < int (length array)
        \<and> length array \<le> length (lines self)"
  then have a1: "0 \<le> index self" and a2: "index self < int (length array)"
    and a3: "length array \<le> length (lines self)" by blast+
  show "history_paints (snd (update_from_array self array jh)) = Suc (history_paints self)"
    unfolding history_after_append(2)[OF a1 a2 a3] by (rule history_paints_appended)
  show ex: "history (snd (update_from_array self array jh)) =
          (case drawLines (filter (\<lambda>c. c \<noteq> PyNone)
                  (ravel (take (length array - 1)
                     (lines (snd (update_from_array self array jh)))))) of
             Inl e \<Rightarrow> [] | Inr pic \<Rightarrow> pic)"
    unfolding history_after_append(1)[OF a1 a2 a3] lines_after_append(1)[OF a1 a2 a3]
    by (rule history_appended[OF a1 a2 a3])
  assume rw: "rows_written self"
  have "list_all is_line (filter (\<lambda>c. c \<noteq> PyNone)
          (ravel (take (length array - 1) (lines (snd (update_from_array self array jh))))))"
    unfolding lines_after_append(1)[OF a1 a2 a3] appended_fields
    by (rule allocated_rows_lines[OF rows_written_below_last[OF a1 a2 a3 rw]])
  then show "history (snd (update_from_array self array jh)) =
             filter (\<lambda>c. c \<noteq> PyNone)
               (ravel (take (length array - 1)
                  (lines (snd (update_from_array self array jh)))))"
    unfolding ex by (rule drawLines_all_lines)
qed

lemma scenario_table_written: "rows_written scenario_table"
proof -
  have h1: "0 \<le> index BarItems_init" by (simp add: BarItems_init_def)
  have h2: "index BarItems_init < int (length scenario_bars)"
    by (simp add: BarItems_init_def scenario_bars_def)
  have h3: "length scenario_bars \<le> length (lines BarItems_init)"
    by (simp add: BarItems_init_def scenario_bars_def mk_lines_array_def)
  show ?thesis
    unfolding scenario_table_def
    by (rule rows_written_after_append[OF h1 h2 h3 rows_written_init])
qed

theorem history_redrawn_on_append_only_witness:
  "int (length scenario_flat) \<le> index scenario_table \<and> scenario_flat \<noteq> []
   \<and> index_f (last scenario_flat) = index scenario_table - 1
   \<and> nat (index scenario_table - 1) < length (lines scenario_table)
   \<and> allocated (lines scenario_table ! nat (index scenario_table - 1))
   \<and> history (snd (update_from_array scenario_table scenario_flat False)) = history scenario_table
   \<and> history_paints (snd (update_from_array scenario_table scenario_flat False))
        = history_paints scenario_table
   \<and> last_paints (snd (update_from_array scenario_table scenario_flat False))
        = Suc (last_paints scenario_table)
   \<and> 0 \<le> index BarItems_init \<and> index BarItems_init < int (length scenario_bars)
   \<and> length scenario_bars \<le> length (lines BarItems_init) \<and> rows_written BarItems_init
   \<and> history scenario_table
        = filter (\<lambda>c. c \<noteq> PyNone) (ravel (take 2 (lines scenario_table)))
   \<and> history_paints scenario_table = 1
   \<and> 0 \<le> index scenario_table \<and> index scenario_table < int (length scenario_four)
   \<and> length scenario_four \<le> length (lines scenario_table) \<and> rows_written scenario_table
   \<and> history (snd (update_from_array scenario_table scenario_four False))
        = filter (\<lambda>c. c \<noteq> PyNone)
            (ravel (take 3 (lines (snd (update_from_array scenario_table scenario_four False)))))
   \<and> history_paints (snd (update_from_array scenario_table scenario_four False)) = 2"
proof -
  have a1: "int (length scenario_flat) \<le> index scenario_table"
    by (simp add: scenario_table_facts scenario_flat_def)
  have a2: "scenario_flat \<noteq> []" by (simp add: scenario_flat_def)
  have a3: "index_f (last scenario_flat) = index scenario_table - 1"
    by (simp add: scenario_table_facts scenario_flat_def)
  have a4: "nat (index scenario_table - 1) < length (lines scenario_table)"
    by (simp add: scenario_table_facts)
  have a5: "allocated (lines scenario_table ! nat (index scenario_table - 1))"
    by (simp add: scenario_table_facts allocated_bar_lines)
  have h1: "0 \<le> index BarItems_init" by (simp add: BarItems_init_def)
  have h2: "index BarItems_init < int (length scenario_bars)"
    by (simp add: BarItems_init_def scenario_bars_def)
  have h3: "length scenario_bars \<le> length (lines BarItems_init)"
    by (simp add: BarItems_init_def scenario_bars_def mk_lines_array_def)
  have f1: "0 \<le> index scenario_table" by (simp add: scenario_table_facts)
  have f2: "index scenario_table < int (length scenario_four)"
    by (simp add: scenario_table_facts scenario_four_def scenario_bars_def)
  have f3: "length scenario_four \<le> length (lines scenario_table)"
    by (simp add: scenario_table_facts scenario_four_def scenario_bars_def)
  have l: "length scenario_bars - 1 = 2" by (simp add: scenario_bars_def)
  have l4: "length scenario_four - 1 = 3" by (simp add: scenario_four_def scenario_bars_def)
  have p: "history_paints BarItems_init = 0" by (simp add: BarItems_init_def)
  have "history (snd (update_from_array BarItems_init scenario_bars False))
        = filter (\<lambda>c. c \<noteq> PyNone)
            (ravel (take (length scenario_bars - 1)
               (lines (snd (update_from_array BarItems_init scenario_bars False)))))
      \<and> history_paints (snd (update_from_array BarItems_init scenario_bars False))
        = Suc (history_paints BarItems_init)"
    using h1 h2 h3 rows_written_init
      history_redrawn_on_append_only[of scenario_bars BarItems_init False]
    by blast
  then have c1: "history scenario_table
        = filter (\<lambda>c. c \<noteq> PyNone) (ravel (take 2 (lines scenario_table)))
      \<and> history_paints scenario_table = 1"
    unfolding scenario_table_def[symmetric] l p by simp
  have "history (snd (update_from_array scenario_table scenario_four False))
        = filter (\<lambda>c. c \<noteq> PyNone)
            (ravel (take (length scenario_four - 1)
               (lines (snd (update_from_array scenario_table scenario_four False)))))
      \<and> history_paints (snd (update_from_array scenario_table scenario_four False))
        = Suc (history_paints scenario_table)"
    using f1 f2 f3 scenario_table_written
      history_redrawn_on_append_only[of scenario_four scenario_table False]
    by blast
  then have c2: "history (snd (update_from_array scenario_table scenario_four False))
        = filter (\<lambda>c. c \<noteq> PyNone)
            (ravel (take 3 (lines (snd (update_from_array scenario_table scenario_four False)))))
      \<and> history_paints (snd (update_from_array scenario_table scenario_four False)) = 2"
    unfolding l4 using c1 by simp
  have c3: "history (snd (update_from_array scenario_table scenario_flat False))
              = history scenario_table
      \<and> history_paints (snd (update_from_array scenario_table scenario_flat False))
        = history_paints scenario_table
      \<and> last_paints (snd (update_from_array scenario_table scenario_flat False))
        = Suc (last_paints scenario_table)"
    using a1 a2 a3 a4 a5
      history_redrawn_on_append_only[of scenario_flat scenario_table False]
    by blast
  show ?thesis
    using a1 a2 a3 a4 a5 h1 h2 h3 f1 f2 f3 rows_written_init scenario_table_written c1 c2 c3
    by simp
qed






lemma first_single_bar_raises:
  "fst (update_from_array BarItems_init [q] jh) = Some TypeError
   \<and> index (snd (update_from_array BarItems_init [q] jh)) = 1
   \<and> history (snd (update_from_array BarItems_init [q] jh)) = []"
proof -
  have h1: "0 \<le> index BarItems_init" by (simp add: BarItems_init_def)
  have h2: "index BarItems_init < int (length [q])" by (simp add: BarItems_init_def)
  have h3: "length [q] \<le> length (lines BarItems_init)"
    by (simp add: BarItems_init_def mk_lines_array_def)
  have d: "draw_lines (written BarItems_init [q]) 0 None True =
             (Some TypeError,
              (written BarItems_init [q])\<lparr>history := [],
                 history_paints := Suc (history_paints (written BarItems_init [q]))\<rparr>)"
    by (simp add: draw_lines_def Let_def py_or_def py_slice_def py_clip_def ravel_def
        drawLines_def)
  show ?thesis
    unfolding update_from_array_append[OF h1 h2 h3] d by simp
qed










section \<open>Properties of the crosshair\<close>

lemma map_of_dict_set:
  "map_of (dict_set k v kvs) q = (if q = k then Some v else map_of kvs q)"
  by (induction kvs) auto

lemma map_fst_dict_set:
  "map_of kvs k = Some g \<Longrightarrow> map fst (dict_set k v kvs) = map fst kvs"
  by (induction kvs) (auto split: if_splits)

lemma map_of_map_entries:
  "map_of (map (\<lambda>(p, opts). (p, f opts)) kvs) q = map_option f (map_of kvs q)"
  by (induction kvs) auto

lemma map_fst_map_entries:
  "map fst (map (\<lambda>(p, opts). (p, f opts)) kvs) = map fst kvs"
  by (induction kvs) auto

lemma mouseMoved_same:
  assumes "active_plot s = Some p" and "map_of (graphics s) p = Some g"
    and "lastx s = Some (py_round (fst (tv p pos)))"
  shows "mouseMoved tv fv s pos =
           (None, s\<lparr>graphics := dict_set p (moved_entry pos (snd (tv p pos)) g) (graphics s)\<rparr>)"
  using assms by (simp add: mouseMoved_def Let_def moved_entry_def)

lemma mouseMoved_snap:
  assumes "active_plot s = Some p" and "map_of (graphics s) p = Some g"
    and "lastx s \<noteq> Some (py_round (fst (tv p pos)))" and "xaxis_label s = Some xl"
  shows "mouseMoved tv fv s pos =
           (None, s\<lparr>graphics := map (\<lambda>(q, opts). (q, snap_entry (py_round (fst (tv p pos))) opts))
                                   (dict_set p (moved_entry pos (snd (tv p pos)) g) (graphics s)),
                    xaxis_label := Some (xl\<lparr>xl_args :=
                       Some (fv (fst (last (graphics s)))
                               (of_int (py_round (fst (tv p pos))), snd (tv p pos)),
                             fst (tv p pos))\<rparr>),
                    lastx := Some (py_round (fst (tv p pos)))\<rparr>)"
proof -
  let ?gs = "dict_set p (moved_entry pos (snd (tv p pos)) g) (graphics s)"
  have ne: "graphics s \<noteq> []" using assms(2) by auto
  have keys: "map fst ?gs = map fst (graphics s)" by (rule map_fst_dict_set[OF assms(2)])
  have ne2: "?gs \<noteq> []" using keys ne by (metis map_is_Nil_conv)
  have "fst (last (map (\<lambda>(q, opts). (q, snap_entry ix opts)) ?gs)) = last (map fst ?gs)" for ix
    using ne2 by (simp add: last_map split: prod.splits)
  also have "last (map fst ?gs) = fst (last (graphics s))"
    unfolding keys using ne by (simp add: last_map)
  finally have lst: "fst (last (map (\<lambda>(q, opts). (q, snap_entry ix opts)) ?gs))
                       = fst (last (graphics s))" for ix .
  have neq: "Some (py_round (fst (tv p pos))) \<noteq> lastx s" using assms(3) by auto
  show ?thesis
    using assms(1,2,4) neq lst
    by (simp add: mouseMoved_def Let_def moved_entry_def)
qed

lemma mouseMoved_post:
  assumes "active_plot s = Some p" and "map_of (graphics s) p = Some g"
    and "xaxis_label s = Some xl"
  shows "fst (mouseMoved tv fv s pos) = None"
    and "active_plot (snd (mouseMoved tv fv s pos)) = Some p"
    and "lastx (snd (mouseMoved tv fv s pos)) = Some (py_round (fst (tv p pos)))"
    and "\<exists>g'. map_of (graphics (snd (mouseMoved tv fv s pos))) p = Some g'"
    and "\<exists>xl'. xaxis_label (snd (mouseMoved tv fv s pos)) = Some xl'"
proof -
  consider (same) "lastx s = Some (py_round (fst (tv p pos)))"
    | (snap) "lastx s \<noteq> Some (py_round (fst (tv p pos)))" by blast
  then have "fst (mouseMoved tv fv s pos) = None
    \<and> active_plot (snd (mouseMoved tv fv s pos)) = Some p
    \<and> lastx (snd (mouseMoved tv fv s pos)) = Some (py_round (fst (tv p pos)))
    \<and> (\<exists>g'. map_of (graphics (snd (mouseMoved tv fv s pos))) p = Some g')
    \<and> (\<exists>xl'. xaxis_label (snd (mouseMoved tv fv s pos)) = Some xl')"
  proof cases
    case same
    show ?thesis
      unfolding mouseMoved_same[where tv=tv and pos=pos, OF assms(1,2) same]
      using assms same by (simp add: map_of_dict_set)
  next
    case snap
    show ?thesis
      unfolding mouseMoved_snap[where tv=tv and pos=pos, OF assms(1,2) snap assms(3)]
      using assms by (simp add: map_of_dict_set map_of_map_entries)
  qed
  then show "fst (mouseMoved tv fv s pos) = None"
    and "active_plot (snd (mouseMoved tv fv s pos)) = Some p"
    and "lastx (snd (mouseMoved tv fv s pos)) = Some (py_round (fst (tv p pos)))"
    and "\<exists>g'. map_of (graphics (snd (mouseMoved tv fv s pos))) p = Some g'"
    and "\<exists>xl'. xaxis_label (snd (mouseMoved tv fv s pos)) = Some xl'"
    by blast+
qed

text \<open>
  Claim C4. Two consecutive \<^verbatim>\<open>mouseMoved\<close> events on an active, registered plot \<open>p\<close>.
  When both x-coordinates round to the same index, the second event changes only the
  horizontal line and the y-axis label of \<open>p\<close>: on every registered plot the vertical
  line, the contents-label calls and the cursors are as the first event left them, the
  x-axis label and \<open>lastx\<close> are unchanged, and the entries of the other plots are
  unchanged altogether. When the rounded index differs, every registered plot has its
  vertical line and its cursors at the new index and one more contents-label call for it,
  the x-axis label is updated with the unrounded \<open>x\<close>, and \<open>lastx\<close> is the new index.
\<close>

theorem pointer_move_snapped:
  assumes "active_plot s = Some p" and "map_of (graphics s) p = Some g"
    and "xaxis_label s = Some xl"
  shows
    "let s1 = snd (mouseMoved tv fv s e1);
         s2 = snd (mouseMoved tv fv s1 e2);
         x2 = fst (tv p e2); y2 = snd (tv p e2); ix2 = py_round x2
     in fst (mouseMoved tv fv s e1) = None \<and> fst (mouseMoved tv fv s1 e2) = None
        \<and> (py_round (fst (tv p e1)) = ix2 \<longrightarrow>
              lastx s2 = lastx s1 \<and> xaxis_label s2 = xaxis_label s1
              \<and> active_plot s2 = active_plot s1 \<and> plots s2 = plots s1
              \<and> map fst (graphics s2) = map fst (graphics s1)
              \<and> (\<forall>q g1. map_of (graphics s1) q = Some g1 \<longrightarrow>
                    (\<exists>g2. map_of (graphics s2) q = Some g2
                       \<and> vl g2 = vl g1 \<and> contents g2 = contents g1 \<and> cursors g2 = cursors g1
                       \<and> hl_shown g2 = hl_shown g1 \<and> lab_shown (yl g2) = lab_shown (yl g1)
                       \<and> (q \<noteq> p \<longrightarrow> g2 = g1)
                       \<and> (q = p \<longrightarrow> hl g2 = y2 \<and> lab_args (yl g2) = Some (e2, y2)))))
        \<and> (py_round (fst (tv p e1)) \<noteq> ix2 \<longrightarrow>
              lastx s2 = Some ix2
              \<and> map fst (graphics s2) = map fst (graphics s1)
              \<and> (\<forall>q g1. map_of (graphics s1) q = Some g1 \<longrightarrow>
                    (\<exists>g2. map_of (graphics s2) q = Some g2
                       \<and> vl g2 = of_int ix2 \<and> contents g2 = ix2 # contents g1
                       \<and> cursors g2 = map_option (map (\<lambda>c. ix2)) (cursors g1)))
              \<and> (\<exists>xl2. xaxis_label s2 = Some xl2
                     \<and> xl_args xl2 = Some (fv (fst (last (graphics s1))) (of_int ix2, y2), x2)))"
proof -
  define s1 where "s1 = snd (mouseMoved tv fv s e1)"
  define s2 where "s2 = snd (mouseMoved tv fv s1 e2)"
  define y2 where "y2 = snd (tv p e2)"
  define ix2 where "ix2 = py_round (fst (tv p e2))"
  have ok1: "fst (mouseMoved tv fv s e1) = None"
    by (rule mouseMoved_post(1)[OF assms])
  have act1: "active_plot s1 = Some p"
    unfolding s1_def by (rule mouseMoved_post(2)[OF assms])
  have last1: "lastx s1 = Some (py_round (fst (tv p e1)))"
    unfolding s1_def by (rule mouseMoved_post(3)[OF assms])
  obtain g' where reg1: "map_of (graphics s1) p = Some g'"
    unfolding s1_def using mouseMoved_post(4)[OF assms] by blast
  obtain xl' where xl1: "xaxis_label s1 = Some xl'"
    unfolding s1_def using mouseMoved_post(5)[OF assms] by blast
  have ok2: "fst (mouseMoved tv fv s1 e2) = None"
    by (rule mouseMoved_post(1)[OF act1 reg1 xl1])
  have same: "lastx s2 = lastx s1 \<and> xaxis_label s2 = xaxis_label s1
              \<and> active_plot s2 = active_plot s1 \<and> plots s2 = plots s1
              \<and> map fst (graphics s2) = map fst (graphics s1)
              \<and> (\<forall>q g1. map_of (graphics s1) q = Some g1 \<longrightarrow>
                    (\<exists>g2. map_of (graphics s2) q = Some g2
                       \<and> vl g2 = vl g1 \<and> contents g2 = contents g1 \<and> cursors g2 = cursors g1
                       \<and> hl_shown g2 = hl_shown g1 \<and> lab_shown (yl g2) = lab_shown (yl g1)
                       \<and> (q \<noteq> p \<longrightarrow> g2 = g1)
                       \<and> (q = p \<longrightarrow> hl g2 = y2 \<and> lab_args (yl g2) = Some (e2, y2))))"
    if eq: "py_round (fst (tv p e1)) = ix2"
  proof -
    have l: "lastx s1 = Some (py_round (fst (tv p e2)))" using last1 eq ix2_def by simp
    have s2: "s2 = s1\<lparr>graphics := dict_set p (moved_entry e2 y2 g') (graphics s1)\<rparr>"
      unfolding s2_def y2_def mouseMoved_same[where tv=tv and pos=e2, OF act1 reg1 l] by simp
    show ?thesis
      unfolding s2 using reg1
      by (auto simp add: map_of_dict_set map_fst_dict_set moved_entry_def)
  qed
  have snap: "lastx s2 = Some ix2
              \<and> map fst (graphics s2) = map fst (graphics s1)
              \<and> (\<forall>q g1. map_of (graphics s1) q = Some g1 \<longrightarrow>
                    (\<exists>g2. map_of (graphics s2) q = Some g2
                       \<and> vl g2 = of_int ix2 \<and> contents g2 = ix2 # contents g1
                       \<and> cursors g2 = map_option (map (\<lambda>c. ix2)) (cursors g1)))
              \<and> (\<exists>xl2. xaxis_label s2 = Some xl2
                     \<and> xl_args xl2 = Some (fv (fst (last (graphics s1))) (of_int ix2, y2),
                                              fst (tv p e2)))"
    if neq: "py_round (fst (tv p e1)) \<noteq> ix2"
  proof -
    have l: "lastx s1 \<noteq> Some (py_round (fst (tv p e2)))" using last1 neq ix2_def by simp
    have s2: "s2 = s1\<lparr>graphics := map (\<lambda>(q, opts). (q, snap_entry ix2 opts))
                                   (dict_set p (moved_entry e2 y2 g') (graphics s1)),
                    xaxis_label := Some (xl'\<lparr>xl_args :=
                       Some (fv (fst (last (graphics s1))) (of_int ix2, y2), fst (tv p e2))\<rparr>),
                    lastx := Some ix2\<rparr>"
      unfolding s2_def y2_def ix2_def mouseMoved_snap[where tv=tv and pos=e2, OF act1 reg1 l xl1] by simp
    have keys: "map fst (graphics s2) = map fst (graphics s1)"
      unfolding s2 using map_fst_dict_set[OF reg1]
      by (simp add: map_fst_map_entries del: map_map)
    have entries: "\<forall>q g1. map_of (graphics s1) q = Some g1 \<longrightarrow>
                    (\<exists>g2. map_of (graphics s2) q = Some g2
                       \<and> vl g2 = of_int ix2 \<and> contents g2 = ix2 # contents g1
                       \<and> cursors g2 = map_option (map (\<lambda>c. ix2)) (cursors g1))"
      unfolding s2 using reg1
      by (auto simp add: map_of_map_entries map_of_dict_set snap_entry_def moved_entry_def
          split: option.splits)
    show ?thesis
      using keys entries unfolding s2 by simp
  qed
  show ?thesis
    unfolding Let_def
    using ok1 ok2 same snap
    unfolding s1_def[symmetric] s2_def[symmetric] y2_def[symmetric] ix2_def[symmetric]
    by blast
qed

lemmas crosshair_eval =
  two_panels_def entered_A_then_B_def add_plot_def add_curve_cursor_def mouseAction_def
  CrossHair_init_def view_id_def Let_def

lemma entered_A_then_B_state:
  "entered_A_then_B =
     \<lparr>graphics =
        [(PanelA, \<lparr>vl = 0, hl = 0, hl_shown = True,
                    yl = \<lparr>lab_shown = True, lab_args = None\<rparr>, cursors = Some [7],
                    contents = []\<rparr>),
         (PanelB, \<lparr>vl = 0, hl = 0, hl_shown = True,
                    yl = \<lparr>lab_shown = True, lab_args = None\<rparr>, cursors = None,
                    contents = []\<rparr>)],
      plots = [PanelA, PanelB], active_plot = Some PanelB, digits = 0, lastx = None,
      xaxis_label = Some \<lparr>xl_parent = PanelB, xl_pos = (0, 0), xl_args = None\<rparr>\<rparr>"
  by (simp add: crosshair_eval)

text \<open>
  Claim C6, as amended. A leave event from a registered plot, active or not, sets
  \<^verbatim>\<open>active_plot\<close> to \<^verbatim>\<open>None\<close> and hides the horizontal line and the y-axis label of
  that plot; the entries of all other plots are left as they were. The witness is the
  scenario: after entering A and then B, a leave from A deactivates the crosshair while
  the line and label of B stay shown.
\<close>

theorem leave_always_deactivates:
  assumes "map_of (graphics s) p = Some g" and "action \<noteq> ''Enter''"
  shows "fst (mouseAction s action p) = None
       \<and> active_plot (snd (mouseAction s action p)) = None
       \<and> map_of (graphics (snd (mouseAction s action p))) p
           = Some (g\<lparr>hl_shown := False, yl := (yl g)\<lparr>lab_shown := False\<rparr>\<rparr>)
       \<and> (\<forall>q. q \<noteq> p \<longrightarrow>
              map_of (graphics (snd (mouseAction s action p))) q = map_of (graphics s) q)
       \<and> map fst (graphics (snd (mouseAction s action p))) = map fst (graphics s)"
  using assms by (simp add: mouseAction_def Let_def map_of_dict_set map_fst_dict_set)

theorem leave_always_deactivates_witness:
  "map_of (graphics entered_A_then_B) PanelA
     = Some \<lparr>vl = 0, hl = 0, hl_shown = True, yl = \<lparr>lab_shown = True, lab_args = None\<rparr>,
             cursors = Some [7], contents = []\<rparr>
   \<and> ''Leave'' \<noteq> ''Enter''
   \<and> active_plot entered_A_then_B = Some PanelB
   \<and> fst (mouseAction entered_A_then_B ''Leave'' PanelA) = None
   \<and> active_plot (snd (mouseAction entered_A_then_B ''Leave'' PanelA)) = None
   \<and> map_of (graphics (snd (mouseAction entered_A_then_B ''Leave'' PanelA))) PanelA
     = Some \<lparr>vl = 0, hl = 0, hl_shown = False, yl = \<lparr>lab_shown = False, lab_args = None\<rparr>,
             cursors = Some [7], contents = []\<rparr>
   \<and> map_of (graphics (snd (mouseAction entered_A_then_B ''Leave'' PanelA))) PanelB
     = Some \<lparr>vl = 0, hl = 0, hl_shown = True, yl = \<lparr>lab_shown = True, lab_args = None\<rparr>,
             cursors = None, contents = []\<rparr>"
proof -
  have h1: "map_of (graphics entered_A_then_B) PanelA
     = Some \<lparr>vl = 0, hl = 0, hl_shown = True, yl = \<lparr>lab_shown = True, lab_args = None\<rparr>,
             cursors = Some [7], contents = []\<rparr>"
    by (simp add: entered_A_then_B_state)
  have h2: "''Leave'' \<noteq> ''Enter''" by simp
  have b: "map_of (graphics entered_A_then_B) PanelB
     = Some \<lparr>vl = 0, hl = 0, hl_shown = True, yl = \<lparr>lab_shown = True, lab_args = None\<rparr>,
             cursors = None, contents = []\<rparr>"
    by (simp add: entered_A_then_B_state)
  have a: "active_plot entered_A_then_B = Some PanelB"
    by (simp add: entered_A_then_B_state)
  show ?thesis
    using h1 h2 a b leave_always_deactivates[OF h1 h2]
    by simp
qed

text \<open>
  The claim as stated fails: with B active, a leave event from A is not ignored; it
  clears \<^verbatim>\<open>active_plot\<close> and hides the line of A.
\<close>

theorem stale_leave_counterexample:
  "active_plot entered_A_then_B = Some PanelB
   \<and> active_plot (snd (mouseAction entered_A_then_B ''Leave'' PanelA)) = None
   \<and> map_option hl_shown (map_of (graphics entered_A_then_B) PanelA) = Some True
   \<and> map_option hl_shown
        (map_of (graphics (snd (mouseAction entered_A_then_B ''Leave'' PanelA))) PanelA)
      = Some False"
  by (simp add: entered_A_then_B_state mouseAction_def Let_def)

theorem pointer_move_snapped_witness:
  "active_plot entered_A_then_B = Some PanelB
   \<and> map_of (graphics entered_A_then_B) PanelB
       = Some \<lparr>vl = 0, hl = 0, hl_shown = True, yl = \<lparr>lab_shown = True, lab_args = None\<rparr>,
               cursors = None, contents = []\<rparr>
   \<and> xaxis_label entered_A_then_B
       = Some \<lparr>xl_parent = PanelB, xl_pos = (0, 0), xl_args = None\<rparr>
   \<and> py_round (22 / 10) = 2 \<and> py_round (24 / 10) = 2 \<and> py_round (26 / 10) = 3
   \<and> lastx (snd (mouseMoved view_id view_id
                 (snd (mouseMoved view_id view_id entered_A_then_B (22 / 10, 5))) (24 / 10, 6)))
       = lastx (snd (mouseMoved view_id view_id entered_A_then_B (22 / 10, 5)))
   \<and> xaxis_label (snd (mouseMoved view_id view_id
                 (snd (mouseMoved view_id view_id entered_A_then_B (22 / 10, 5))) (24 / 10, 6)))
       = xaxis_label (snd (mouseMoved view_id view_id entered_A_then_B (22 / 10, 5)))
   \<and> lastx (snd (mouseMoved view_id view_id
                 (snd (mouseMoved view_id view_id entered_A_then_B (22 / 10, 5))) (26 / 10, 6)))
       = Some 3"
proof -
  have h1: "active_plot entered_A_then_B = Some PanelB"
    by (simp add: entered_A_then_B_state)
  have h2: "map_of (graphics entered_A_then_B) PanelB
       = Some \<lparr>vl = 0, hl = 0, hl_shown = True, yl = \<lparr>lab_shown = True, lab_args = None\<rparr>,
               cursors = None, contents = []\<rparr>"
    by (simp add: entered_A_then_B_state)
  have h3: "xaxis_label entered_A_then_B
       = Some \<lparr>xl_parent = PanelB, xl_pos = (0, 0), xl_args = None\<rparr>"
    by (simp add: entered_A_then_B_state)
  have r1: "py_round (22 / 10) = 2" by (simp add: py_round_def Let_def)
  have r2: "py_round (24 / 10) = 2" by (simp add: py_round_def Let_def)
  have r3: "py_round (26 / 10) = 3" by (simp add: py_round_def Let_def)
  have r1': "py_round (11 / 5) = 2" by (simp add: py_round_def Let_def)
  have r2': "py_round (12 / 5) = 2" by (simp add: py_round_def Let_def)
  have r3': "py_round (13 / 5) = 3" by (simp add: py_round_def Let_def)
  show ?thesis
    using h1 h2 h3 r1 r2 r3
      pointer_move_snapped[OF h1 h2 h3, of view_id view_id "(22 / 10, 5)" "(24 / 10, 6)"]
      pointer_move_snapped[OF h1 h2 h3, of view_id view_id "(22 / 10, 5)" "(26 / 10, 6)"]
    by (simp add: Let_def view_id_def r1' r2' r3')
qed

section \<open>Properties of the labels\<close>

lemmas format_eval =
  format_f_def Let_def py_round_def dec_digits.simps digit_char_def group3_def replace_comma_def

lemma py_get_first: "xs \<noteq> [] \<Longrightarrow> py_get xs 0 = Inr (hd xs)"
  by (cases xs) (simp_all add: py_get_def py_norm_def)

lemma py_get_nat:
  "0 \<le> i \<Longrightarrow> nat i < length xs \<Longrightarrow> py_get xs i = Inr (xs ! nat i)"
  by (simp add: py_get_def py_norm_def)

lemma update_from_value_outside:
  assumes "array = [] \<or> i \<le> d_index (hd array) \<or> d_index (last array) \<le> i"
  shows "snd (update_from_value self name i array) = self"
proof (cases "array = []")
  case True
  then show ?thesis by (simp add: update_from_value_def py_get_empty)
next
  case False
  then show ?thesis
    using assms
    by (auto simp add: update_from_value_def py_get_first py_get_last Let_def)
qed

text \<open>
  Claim C10. \<^verbatim>\<open>update_from_value\<close> changes the text of the contents label only when the
  index lies strictly between the index of the first row and the index of the last row
  of the array. For an index at or below the first, or at or above the last, the call
  returns normally with the label as it was; for an index strictly inside that reads a
  row with the named field, the text becomes the name, a colon and the value with two
  decimals.
\<close>

theorem contents_label_strictly_inside:
  "(text_l (snd (update_from_value self name i array)) \<noteq> text_l self \<longrightarrow>
      array \<noteq> [] \<and> d_index (hd array) < i \<and> i < d_index (last array))
   \<and> (array \<noteq> [] \<and> (i \<le> d_index (hd array) \<or> d_index (last array) \<le> i) \<longrightarrow>
      update_from_value self name i array = (None, self))
   \<and> (array \<noteq> [] \<and> d_index (hd array) < i \<and> i < d_index (last array)
        \<and> nat (i - d_index (hd array)) < length array
        \<and> d_fields (array ! nat (i - d_index (hd array))) name = Some v \<longrightarrow>
      update_from_value self name i array =
        (None, self\<lparr>text_l := name @ '': '' @ format_f False 2 v\<rparr>))"
proof (intro conjI impI)
  assume ch: "text_l (snd (update_from_value self name i array)) \<noteq> text_l self"
  have "\<not> (array = [] \<or> i \<le> d_index (hd array) \<or> d_index (last array) \<le> i)"
    using ch update_from_value_outside[of array i self name] by auto
  then show "array \<noteq> []" and "d_index (hd array) < i" and "i < d_index (last array)"
    by auto
next
  assume "array \<noteq> [] \<and> (i \<le> d_index (hd array) \<or> d_index (last array) \<le> i)"
  then show "update_from_value self name i array = (None, self)"
    by (auto simp add: update_from_value_def py_get_first py_get_last Let_def)
next
  assume h: "array \<noteq> [] \<and> d_index (hd array) < i \<and> i < d_index (last array)
        \<and> nat (i - d_index (hd array)) < length array
        \<and> d_fields (array ! nat (i - d_index (hd array))) name = Some v"
  then have ne: "array \<noteq> []" and lo: "d_index (hd array) < i" and hi: "i < d_index (last array)"
    and k: "nat (i - d_index (hd array)) < length array"
    and f: "d_fields (array ! nat (i - d_index (hd array))) name = Some v" by blast+
  have p: "0 \<le> i - d_index (hd array)" using lo by simp
  show "update_from_value self name i array =
        (None, self\<lparr>text_l := name @ '': '' @ format_f False 2 v\<rparr>)"
    using lo hi f
    by (simp add: update_from_value_def py_get_first[OF ne] py_get_last[OF ne]
        py_get_nat[OF p k] Let_def)
qed

theorem contents_label_strictly_inside_witness:
  "rsi_rows \<noteq> [] \<and> d_index (hd rsi_rows) < 6 \<and> 6 < d_index (last rsi_rows)
   \<and> nat (6 - d_index (hd rsi_rows)) < length rsi_rows
   \<and> d_fields (rsi_rows ! nat (6 - d_index (hd rsi_rows))) ''rsi'' = Some (111 / 2)
   \<and> update_from_value \<lparr>text_l = ''old''\<rparr> ''rsi'' 6 rsi_rows = (None, \<lparr>text_l = ''rsi: 55.50''\<rparr>)
   \<and> (5 \<le> d_index (hd rsi_rows) \<or> d_index (last rsi_rows) \<le> 5)
   \<and> update_from_value \<lparr>text_l = ''old''\<rparr> ''rsi'' 5 rsi_rows = (None, \<lparr>text_l = ''old''\<rparr>)
   \<and> (8 \<le> d_index (hd rsi_rows) \<or> d_index (last rsi_rows) \<le> 8)
   \<and> update_from_value \<lparr>text_l = ''old''\<rparr> ''rsi'' 8 rsi_rows = (None, \<lparr>text_l = ''old''\<rparr>)"
proof -
  have ne: "rsi_rows \<noteq> []" by (simp add: rsi_rows_def)
  have lo: "d_index (hd rsi_rows) < 6" and hi: "6 < d_index (last rsi_rows)"
    by (simp_all add: rsi_rows_def)
  have k: "nat (6 - d_index (hd rsi_rows)) < length rsi_rows" by (simp add: rsi_rows_def)
  have v: "d_fields (rsi_rows ! nat (6 - d_index (hd rsi_rows))) ''rsi'' = Some (111 / 2)"
    by (simp add: rsi_rows_def)
  have o5: "5 \<le> d_index (hd rsi_rows) \<or> d_index (last rsi_rows) \<le> 5"
    by (simp add: rsi_rows_def)
  have o8: "8 \<le> d_index (hd rsi_rows) \<or> d_index (last rsi_rows) \<le> 8"
    by (simp add: rsi_rows_def)
  have t: "''rsi'' @ '': '' @ format_f False 2 (111 / 2) = ''rsi: 55.50''"
    by (simp add: format_eval)
  have "update_from_value \<lparr>text_l = ''old''\<rparr> ''rsi'' 6 rsi_rows
          = (None, \<lparr>text_l = ''old''\<rparr>\<lparr>text_l := ''rsi'' @ '': '' @ format_f False 2 (111 / 2)\<rparr>)"
    using contents_label_strictly_inside[of "\<lparr>text_l = ''old''\<rparr>" "''rsi''" 6 rsi_rows "111 / 2"]
      ne lo hi k v by blast
  then have c6: "update_from_value \<lparr>text_l = ''old''\<rparr> ''rsi'' 6 rsi_rows
                   = (None, \<lparr>text_l = ''rsi: 55.50''\<rparr>)"
    unfolding t by simp
  have c5: "update_from_value \<lparr>text_l = ''old''\<rparr> ''rsi'' 5 rsi_rows = (None, \<lparr>text_l = ''old''\<rparr>)"
    using contents_label_strictly_inside[of "\<lparr>text_l = ''old''\<rparr>" "''rsi''" 5 rsi_rows]
      ne o5 by blast
  have c8: "update_from_value \<lparr>text_l = ''old''\<rparr> ''rsi'' 8 rsi_rows = (None, \<lparr>text_l = ''old''\<rparr>)"
    using contents_label_strictly_inside[of "\<lparr>text_l = ''old''\<rparr>" "''rsi''" 8 rsi_rows]
      ne o8 by blast
  show ?thesis
    using ne lo hi k v o5 o8 c6 c5 c8 by blast
qed

text \<open>
  Claim C9 at the failing input. For the bid label with its size still 0, the
  \<^verbatim>\<open>set_label_str\<close> of \<^verbatim>\<open>_graphics/__init__.py\<close> raises ValueError instead of writing the
  placeholder, and so does \<^verbatim>\<open>update_label\<close>, which leaves the label untouched; with a known
  size the text has the form of the claim.
\<close>

theorem l1_label_unknown_size_raises:
  "size_l bid_label = 0
   \<and> L1_set_label_str bid_label 100 = Inl ValueError
   \<and> update_label L1_set_label_str bid_label (0, 50) 100 1 = (Some ValueError, bid_label)
   \<and> L1_set_label_str (bid_label\<lparr>size_l := 250\<rparr>) (2000011 / 20)
        = Inr (bid_label\<lparr>size_l := 250, label_str := ''250 x 100 000.55''\<rparr>)"
proof -
  have z: "size_l bid_label = 0" by (simp add: bid_label_def)
  have r: "L1_set_label_str bid_label 100 = Inl ValueError"
    by (simp add: L1_set_label_str_def z)
  have u: "update_label L1_set_label_str bid_label (0, 50) 100 1 = (Some ValueError, bid_label)"
    by (simp add: update_label_def r)
  have f1: "format_f False 0 250 = ''250''" by (simp add: format_eval)
  have f2: "format_f True 2 (2000011 / 20) = ''100,000.55''" by (simp add: format_eval)
  have k: "L1_set_label_str (bid_label\<lparr>size_l := 250\<rparr>) (2000011 / 20)
        = Inr (bid_label\<lparr>size_l := 250, label_str := ''250 x 100 000.55''\<rparr>)"
    by (simp add: L1_set_label_str_def bid_label_def f1 f2 replace_comma_def)
  show ?thesis using z r u k by blast
qed

lemma l1_label_unknown_size_general:
  "size_l l = 0 \<Longrightarrow> L1_set_label_str l lv = Inl ValueError"
  by (simp add: L1_set_label_str_def)

lemma l1_label_legacy_placeholder:
  "size_l l = 0 \<Longrightarrow>
   L1_set_label_str_legacy str_of l lv =
     Inr (l\<lparr>label_str := replace_comma (''? x '' @ format_f True (digits_l l) lv)\<rparr>)"
  by (simp add: L1_set_label_str_legacy_def)

lemma update_label_plain:
  "update_label set_label_str l abs_pos lv off =
     (None, l\<lparr>label_str := replace_comma (format_f False (digits_l l) lv),
              label_pos := (h_shift l * rect_w l - off, snd abs_pos - v_shift l * rect_h l - off),
              level := lv\<rparr>)"
  by (simp add: update_label_def set_label_str_def boundingRect_def Let_def)

lemma drag_to_result:
  "drag_to fv lvl v =
     (None, lvl\<lparr>line_value := v,
               line_label := (line_label lvl)
                 \<lparr>label_str := replace_comma (format_f False (digits_l (line_label lvl)) v),
                  label_pos := (h_shift (line_label lvl) * rect_w (line_label lvl) - 1,
                                snd (fv (0, v)) - v_shift (line_label lvl) * rect_h (line_label lvl) - 1),
                  level := v\<rparr>\<rparr>)"
  by (simp add: drag_to_def set_level_def update_from_data_def update_label_plain)

lemma shifts_ok_init:
  assumes "LevelLabel_init dg s0 box p0 ov oh = Inr l"
  shows "shifts_ok l"
proof -
  have v: "ov = ''top'' \<or> ov = ''bottom'' \<or> ov = ''middle''"
    using assms by (simp add: LevelLabel_init_def split: option.splits if_splits)
  have h: "oh = ''left'' \<or> oh = ''right''"
    using assms by (simp add: LevelLabel_init_def split: option.splits if_splits)
  show ?thesis
    using assms v h
    by (auto simp add: LevelLabel_init_def shifts_ok_def)
qed

lemma shifts_ok_cases:
  assumes "shifts_ok l"
  shows "orient_h l = ''left'' \<Longrightarrow> h_shift l = - 1"
    and "orient_h l = ''right'' \<Longrightarrow> h_shift l = 0"
    and "orient_v l = ''top'' \<Longrightarrow> v_shift l = 1"
    and "orient_v l = ''middle'' \<Longrightarrow> v_shift l = 1 / 2"
    and "orient_v l = ''bottom'' \<Longrightarrow> v_shift l = 0"
  using assms by (auto simp add: shifts_ok_def)

text \<open>
  Claim C8. A drag of a level line to \<open>v\<close> never fails; it stores \<open>v\<close> as the level of
  the label, writes the text as \<open>v\<close> formatted with the label's digits, and places the
  label at x = \<open>h_shift * width - 1\<close> and y = \<open>y(v) - v_shift * height - 1\<close>, with
  \<open>y(v)\<close> the scene coordinate of the level and height and width those of the measured
  box, which the update leaves unchanged. For a label whose shifts come from
  \<^verbatim>\<open>__init__\<close>, the horizontal offset is the whole width when the label is anchored left
  (none when right), and the vertical offset is the whole height, half of it, or none for
  the orientations top, middle and bottom.
\<close>

theorem drag_updates_label:
  "fst (drag_to fv lvl v) = None
   \<and> line_value (snd (drag_to fv lvl v)) = v
   \<and> level (line_label (snd (drag_to fv lvl v))) = v
   \<and> label_str (line_label (snd (drag_to fv lvl v)))
       = replace_comma (format_f False (digits_l (line_label lvl)) v)
   \<and> label_pos (line_label (snd (drag_to fv lvl v)))
       = (h_shift (line_label lvl) * rect_w (line_label lvl) - 1,
          snd (fv (0, v)) - v_shift (line_label lvl) * rect_h (line_label lvl) - 1)
   \<and> rect_h (line_label (snd (drag_to fv lvl v))) = rect_h (line_label lvl)
   \<and> rect_w (line_label (snd (drag_to fv lvl v))) = rect_w (line_label lvl)
   \<and> boundingRect (line_label (snd (drag_to fv lvl v))) = boundingRect (line_label lvl)
   \<and> (shifts_ok (line_label lvl) \<longrightarrow>
        shifts_ok (line_label (snd (drag_to fv lvl v)))
        \<and> (orient_h (line_label lvl) = ''left'' \<longrightarrow>
             fst (label_pos (line_label (snd (drag_to fv lvl v)))) = - rect_w (line_label lvl) - 1)
        \<and> (orient_h (line_label lvl) = ''right'' \<longrightarrow>
             fst (label_pos (line_label (snd (drag_to fv lvl v)))) = - 1)
        \<and> (orient_v (line_label lvl) = ''top'' \<longrightarrow>
             snd (label_pos (line_label (snd (drag_to fv lvl v))))
               = snd (fv (0, v)) - rect_h (line_label lvl) - 1)
        \<and> (orient_v (line_label lvl) = ''middle'' \<longrightarrow>
             snd (label_pos (line_label (snd (drag_to fv lvl v))))
               = snd (fv (0, v)) - rect_h (line_label lvl) / 2 - 1)
        \<and> (orient_v (line_label lvl) = ''bottom'' \<longrightarrow>
             snd (label_pos (line_label (snd (drag_to fv lvl v)))) = snd (fv (0, v)) - 1))"
proof -
  let ?l = "line_label lvl"
  let ?l' = "line_label (snd (drag_to fv lvl v))"
  have pos: "label_pos ?l' = (h_shift ?l * rect_w ?l - 1, snd (fv (0, v)) - v_shift ?l * rect_h ?l - 1)"
    unfolding drag_to_result by simp
  have or: "orient_h ?l' = orient_h ?l" "orient_v ?l' = orient_v ?l"
    "h_shift ?l' = h_shift ?l" "v_shift ?l' = v_shift ?l"
    unfolding drag_to_result by simp_all
  have plain: "fst (drag_to fv lvl v) = None
   \<and> line_value (snd (drag_to fv lvl v)) = v
   \<and> level ?l' = v
   \<and> label_str ?l' = replace_comma (format_f False (digits_l ?l) v)
   \<and> rect_h ?l' = rect_h ?l \<and> rect_w ?l' = rect_w ?l
   \<and> boundingRect ?l' = boundingRect ?l"
    unfolding drag_to_result by (simp add: boundingRect_def)
  have sh: "shifts_ok ?l'
        \<and> (orient_h ?l = ''left'' \<longrightarrow> fst (label_pos ?l') = - rect_w ?l - 1)
        \<and> (orient_h ?l = ''right'' \<longrightarrow> fst (label_pos ?l') = - 1)
        \<and> (orient_v ?l = ''top'' \<longrightarrow> snd (label_pos ?l') = snd (fv (0, v)) - rect_h ?l - 1)
        \<and> (orient_v ?l = ''middle'' \<longrightarrow>
             snd (label_pos ?l') = snd (fv (0, v)) - rect_h ?l / 2 - 1)
        \<and> (orient_v ?l = ''bottom'' \<longrightarrow> snd (label_pos ?l') = snd (fv (0, v)) - 1)"
    if ok: "shifts_ok ?l"
  proof -
    have "shifts_ok ?l'" using ok unfolding shifts_ok_def or by simp
    then show ?thesis
      unfolding pos using shifts_ok_cases[OF ok] by simp
  qed
  show ?thesis using plain pos sh by blast
qed

lemma price_label_state:
  "price_label =
     \<lparr>label_str = ''100.00'', level = 100, digits_l = 2, orient_v = ''top'', orient_h = ''left'',
      v_shift = 1, h_shift = - 1, rect_h = 12, rect_w = 40, label_pos = (- 41, 87)\<rparr>"
proof -
  have i: "LevelLabel_init 2 '''' (12, 40) (0, 0) ''top'' ''left'' =
             Inr \<lparr>label_str = '''', level = 0, digits_l = 2, orient_v = ''top'',
                  orient_h = ''left'', v_shift = 1, h_shift = - 1, rect_h = 12, rect_w = 40,
                  label_pos = (0, 0)\<rparr>"
    by (simp add: LevelLabel_init_def)
  have f: "replace_comma (format_f False 2 100) = ''100.00''" by (simp add: format_eval)
  show ?thesis
    unfolding price_label_def i update_from_data_def update_label_plain
    by (simp add: f)
qed

theorem drag_updates_label_witness:
  "shifts_ok (line_label price_line)
   \<and> level (line_label price_line) = 100
   \<and> label_str (line_label price_line) = ''100.00''
   \<and> orient_h (line_label price_line) = ''left''
   \<and> orient_v (line_label price_line) = ''top''
   \<and> fst (drag_to (\<lambda>p. p) price_line (405 / 4)) = None
   \<and> level (line_label (snd (drag_to (\<lambda>p. p) price_line (405 / 4)))) = 405 / 4
   \<and> label_str (line_label (snd (drag_to (\<lambda>p. p) price_line (405 / 4)))) = ''101.25''
   \<and> label_pos (line_label (snd (drag_to (\<lambda>p. p) price_line (405 / 4))))
        = (- 41, 405 / 4 - 12 - 1)
   \<and> rect_h (line_label (snd (drag_to (\<lambda>p. p) price_line (405 / 4)))) = 12
   \<and> rect_w (line_label (snd (drag_to (\<lambda>p. p) price_line (405 / 4)))) = 40"
proof -
  have l: "line_label price_line = price_label" by (simp add: price_line_def)
  have ok: "shifts_ok (line_label price_line)"
    unfolding l price_label_state by (simp add: shifts_ok_def)
  have s: "level price_label = 100" "label_str price_label = ''100.00''"
    "orient_h price_label = ''left''" "orient_v price_label = ''top''"
    "digits_l price_label = 2" "rect_h price_label = 12" "rect_w price_label = 40"
    "h_shift price_label = - 1" "v_shift price_label = 1"
    unfolding price_label_state by simp_all
  have f: "replace_comma (format_f False 2 (405 / 4)) = ''101.25''" by (simp add: format_eval)
  show ?thesis
    using ok drag_updates_label[of "\<lambda>p. p" price_line "405 / 4"]
    unfolding l s f
    by simp
qed

end
